theory Spec2Isabelle
  imports Main "HOL-Library.Word"
begin

unbundle bit_operations_syntax

section \<open>The broker-side module host (src/broker/module.c)\<close>

subsection \<open>Constants of the headers\<close>

text \<open>The error numbers of \<^verbatim>\<open>errno.h\<close> (Linux values) that module.c assigns or that the
  library calls it makes leave behind.\<close>

definition ENOENT :: int where "ENOENT = 2"
definition EAGAIN :: int where "EAGAIN = 11"
definition ENOMEM :: int where "ENOMEM = 12"
definition EINVAL :: int where "EINVAL = 22"
definition ENOSYS :: int where "ENOSYS = 38"
definition EPROTO :: int where "EPROTO = 71"

text \<open>Modelled from the spec: the lifecycle codes \<^verbatim>\<open>FLUX_MODSTATE_*\<close>, whose header is not
  among the sources. The spec fixes INIT=0, RUNNING=1, FINALIZING=2, EXITED=3.\<close>

definition FLUX_MODSTATE_INIT :: int where "FLUX_MODSTATE_INIT = 0"
definition FLUX_MODSTATE_RUNNING :: int where "FLUX_MODSTATE_RUNNING = 1"
definition FLUX_MODSTATE_FINALIZING :: int where "FLUX_MODSTATE_FINALIZING = 2"
definition FLUX_MODSTATE_EXITED :: int where "FLUX_MODSTATE_EXITED = 3"

text \<open>Modelled from the spec: the credential constants \<^verbatim>\<open>FLUX_ROLE_*\<close> and
  \<^verbatim>\<open>FLUX_USERID_UNKNOWN\<close>, whose header is not among the sources. The spec speaks of an
  empty rolemask, of the OWNER and LOCAL role bits and of an unknown userid; the role
  bits are distinct single bits of a 32-bit mask, the unknown userid is the all-ones
  32-bit value.\<close>

definition FLUX_ROLE_NONE :: "32 word" where "FLUX_ROLE_NONE = 0"
definition FLUX_ROLE_OWNER :: "32 word" where "FLUX_ROLE_OWNER = 1"
definition FLUX_ROLE_USER :: "32 word" where "FLUX_ROLE_USER = 2"
definition FLUX_ROLE_LOCAL :: "32 word" where "FLUX_ROLE_LOCAL = 4"
definition FLUX_USERID_UNKNOWN :: "32 word" where "FLUX_USERID_UNKNOWN = 0xFFFFFFFF"

subsection \<open>Messages\<close>

text \<open>Modelled from the spec: the message object \<^verbatim>\<open>flux_msg_t\<close> of libflux, which is not
  among the sources. The spec describes a frame with a type (request, response, event,
  control), a route stack (an ordered sequence of identity strings, the top being the
  last entry), a topic string, a credential (userid, rolemask) and an opaque payload.\<close>

datatype msgtype =
  FLUX_MSGTYPE_REQUEST | FLUX_MSGTYPE_RESPONSE | FLUX_MSGTYPE_EVENT | FLUX_MSGTYPE_CONTROL

record flux_msg_cred =
  userid :: "32 word"
  rolemask :: "32 word"

record flux_msg =
  mtype :: msgtype
  routes :: "string list"
  topic :: string
  mcred :: flux_msg_cred
  payload :: string

subsection \<open>The world outside the record\<close>

text \<open>Library and system calls made from module.c, one name per call site. A value of
  type \<open>faults\<close> says which of them fail in a run and the \<^verbatim>\<open>errno\<close> they leave behind
  (\<open>Some e\<close>); for a call that returns nothing, \<open>Some e\<close> only says that it leaves
  \<^verbatim>\<open>errno = e\<close>.\<close>

datatype libcall =
  Msg_get_type | Msg_get_topic | Msg_copy | Route_push | Route_delete_last
  | Msg_send | Msg_recv | Msg_get_cred | Msg_set_cred
  | Zlist_push_rmmod | Pthread_join | Status_callback
  | Disconnect_destroy | Watcher_stop | Watcher_destroy | Zsock_destroy | Dlclose
  | Free_strings | Zlist_destroy
  | Calloc_record | Strdup_parent_uuid | Argz_add | Strdup_path | Zlist_new_rmmod
  | Zlist_new_subs | Strdup_name | Strdup_name_path | Strdup_name_copy
  | Uuid_generate | Zsock_new_pair | Zsock_set_options | Zsock_bind | Watcher_create

type_synonym faults = "libcall \<Rightarrow> int option"

text \<open>What the host does that the broker can observe, in order.\<close>

datatype resource =
  R_disconnect | R_watcher | R_sock | R_dso | R_argz | R_name | R_path | R_parent_uuid
  | R_rmmod_msg nat | R_insmod_msg nat | R_sub string | R_subs | R_rmmod | R_record

datatype event =
  Thread_joined nat
  | Status_cb nat int int
  | Watcher_stopped
  | Released resource

text \<open>The process state the functions of module.c read and write besides the record:
  \<^verbatim>\<open>errno\<close>, the heap of message objects (a message pointer is an index, a freed cell is
  \<open>None\<close>, an allocation appends a cell), and the trace of observable events.\<close>

record world =
  errno :: int
  msgs :: "flux_msg option list"
  trace :: "event list"

definition set_errno :: "int \<Rightarrow> world \<Rightarrow> world" where
  "set_errno e w = w\<lparr>errno := e\<rparr>"

definition deref :: "world \<Rightarrow> nat \<Rightarrow> flux_msg option" where
  "deref w a = (if a < length (msgs w) then msgs w ! a else None)"

definition log_event :: "event \<Rightarrow> world \<Rightarrow> world" where
  "log_event ev w = w\<lparr>trace := trace w @ [ev]\<rparr>"

text \<open>A call that returns nothing may still leave an error number behind.\<close>

definition clobber :: "faults \<Rightarrow> libcall \<Rightarrow> world \<Rightarrow> world" where
  "clobber f c w = (case f c of None \<Rightarrow> w | Some e \<Rightarrow> set_errno e w)"

subsection \<open>The channel\<close>

text \<open>Modelled from the spec: the broker end of the PAIR socket (\<^verbatim>\<open>zsock_t\<close>, czmq). The
  spec describes a bidirectional point-to-point carrier that preserves message
  boundaries and the order of each direction; frames are copies of the messages sent.\<close>

record zsock =
  to_module :: "flux_msg list"
  from_module :: "flux_msg list"

subsection \<open>The module record\<close>

text \<open>\<^verbatim>\<open>struct broker_module\<close>. Pointer fields that the code tests against NULL, or
  that are NULL in a record under construction, are options. The thread handle
  \<open>t\<close> is 0 until \<^verbatim>\<open>pthread_create\<close> has stored one. The fields \<^verbatim>\<open>lastseen\<close>,
  \<^verbatim>\<open>attrs\<close>, \<^verbatim>\<open>conf\<close>, \<^verbatim>\<open>h\<close>, \<^verbatim>\<open>uuid\<close> (the binary form) and the poller callback take no
  part in the functions below.\<close>

record broker_module =
  broker_w :: "bool option"
  sock :: "zsock option"
  cred :: flux_msg_cred
  uuid_str :: string
  parent_uuid_str :: "string option"
  rank :: int
  t :: nat
  main :: "nat option"
  name :: "string option"
  path :: "string option"
  dso :: "nat option"
  argz :: "string list"
  status :: int
  errnum :: int
  muted :: bool
  status_cb :: "nat option"
  disconnect :: "nat option"
  rmmod :: "nat list option"
  insmod :: "nat option"
  subs :: "string list option"

subsection \<open>libflux message calls\<close>

text \<open>Modelled from the spec: \<^verbatim>\<open>flux_msg_get_type\<close> and \<^verbatim>\<open>flux_msg_get_topic\<close> of libflux,
  not among the sources. They read the type and the topic of the frame; module.c tests
  both for failure.\<close>

definition flux_msg_get_type :: "faults \<Rightarrow> world \<Rightarrow> nat \<Rightarrow> msgtype option \<times> world" where
  "flux_msg_get_type f w a =
     (case f Msg_get_type of
        Some e \<Rightarrow> (None, set_errno e w)
      | None \<Rightarrow> (case deref w a of
                  None \<Rightarrow> (None, set_errno EINVAL w)
                | Some m \<Rightarrow> (Some (mtype m), w)))"

definition flux_msg_get_topic :: "faults \<Rightarrow> world \<Rightarrow> nat \<Rightarrow> string option \<times> world" where
  "flux_msg_get_topic f w a =
     (case f Msg_get_topic of
        Some e \<Rightarrow> (None, set_errno e w)
      | None \<Rightarrow> (case deref w a of
                  None \<Rightarrow> (None, set_errno EINVAL w)
                | Some m \<Rightarrow> (Some (topic m), w)))"

text \<open>Modelled from the spec: \<^verbatim>\<open>flux_msg_copy\<close> of libflux, not among the sources. The spec
  says the message is duplicated; module.c tests the result for NULL (the spec's
  copy failure). The second argument of the call says whether the payload is
  duplicated too.\<close>

definition flux_msg_copy :: "faults \<Rightarrow> world \<Rightarrow> nat \<Rightarrow> bool \<Rightarrow> nat option \<times> world" where
  "flux_msg_copy f w a with_payload =
     (case f Msg_copy of
        Some e \<Rightarrow> (None, set_errno e w)
      | None \<Rightarrow> (case deref w a of
                  None \<Rightarrow> (None, set_errno EINVAL w)
                | Some m \<Rightarrow>
                    (Some (length (msgs w)),
                     w\<lparr>msgs := msgs w @ [Some (if with_payload then m else m\<lparr>payload := []\<rparr>)]\<rparr>)))"

text \<open>Modelled from the spec: \<^verbatim>\<open>flux_msg_route_push\<close> of libflux, not among the sources.
  The spec says the identity is pushed onto the route stack and becomes its top (last)
  entry; a push can fail (the spec's routing errors).\<close>

definition flux_msg_route_push :: "faults \<Rightarrow> world \<Rightarrow> nat \<Rightarrow> string option \<Rightarrow> int \<times> world" where
  "flux_msg_route_push f w a ident =
     (case f Route_push of
        Some e \<Rightarrow> (- 1, set_errno e w)
      | None \<Rightarrow> (case (deref w a, ident) of
                  (Some m, Some i) \<Rightarrow>
                    (0, w\<lparr>msgs := (msgs w)[a := Some (m\<lparr>routes := routes m @ [i]\<rparr>)]\<rparr>)
                | _ \<Rightarrow> (- 1, set_errno EINVAL w)))"

text \<open>Modelled from the spec: \<^verbatim>\<open>flux_msg_route_delete_last\<close> of libflux, not among the
  sources. The spec says the last route entry is popped, that every sent RESPONSE has a
  route stack one entry shorter than before, and that a pop can fail (the spec's
  routing errors): a pop that succeeds removes exactly one entry, so a pop on an empty
  stack is a failure.\<close>

definition flux_msg_route_delete_last :: "faults \<Rightarrow> world \<Rightarrow> nat \<Rightarrow> int \<times> world" where
  "flux_msg_route_delete_last f w a =
     (case f Route_delete_last of
        Some e \<Rightarrow> (- 1, set_errno e w)
      | None \<Rightarrow> (case deref w a of
                  None \<Rightarrow> (- 1, set_errno EINVAL w)
                | Some m \<Rightarrow>
                    if routes m = [] then (- 1, set_errno EPROTO w)
                    else (0, w\<lparr>msgs := (msgs w)[a := Some (m\<lparr>routes := butlast (routes m)\<rparr>)]\<rparr>)))"

text \<open>Modelled from the spec: \<^verbatim>\<open>flux_msg_get_cred\<close> and \<^verbatim>\<open>flux_msg_set_cred\<close> of libflux,
  not among the sources: they read and replace the credential of the frame.\<close>

definition flux_msg_get_cred :: "faults \<Rightarrow> world \<Rightarrow> nat \<Rightarrow> flux_msg_cred option \<times> world" where
  "flux_msg_get_cred f w a =
     (case f Msg_get_cred of
        Some e \<Rightarrow> (None, set_errno e w)
      | None \<Rightarrow> (case deref w a of
                  None \<Rightarrow> (None, set_errno EINVAL w)
                | Some m \<Rightarrow> (Some (mcred m), w)))"

definition flux_msg_set_cred :: "faults \<Rightarrow> world \<Rightarrow> nat \<Rightarrow> flux_msg_cred \<Rightarrow> int \<times> world" where
  "flux_msg_set_cred f w a c =
     (case f Msg_set_cred of
        Some e \<Rightarrow> (- 1, set_errno e w)
      | None \<Rightarrow> (case deref w a of
                  None \<Rightarrow> (- 1, set_errno EINVAL w)
                | Some m \<Rightarrow> (0, w\<lparr>msgs := (msgs w)[a := Some (m\<lparr>mcred := c\<rparr>)]\<rparr>)))"

text \<open>\<^verbatim>\<open>flux_msg_destroy\<close> frees the message (NULL is accepted) and keeps \<^verbatim>\<open>errno\<close>.\<close>

definition flux_msg_destroy :: "world \<Rightarrow> nat option \<Rightarrow> world" where
  "flux_msg_destroy w msg =
     (case msg of None \<Rightarrow> w | Some a \<Rightarrow> w\<lparr>msgs := (msgs w)[a := None]\<rparr>)"

text \<open>Modelled from the spec: \<^verbatim>\<open>zmqutil_msg_send\<close> and \<^verbatim>\<open>zmqutil_msg_recv\<close>
  (libzmqutil), not among the sources. Sending puts a copy of the message at the end of
  the broker-to-module direction; receiving takes the oldest frame of the
  module-to-broker direction into a new message object. Receiving from an empty channel
  is reported as \<^verbatim>\<open>EAGAIN\<close>.\<close>

definition zmqutil_msg_send ::
  "faults \<Rightarrow> world \<Rightarrow> zsock option \<Rightarrow> nat \<Rightarrow> int \<times> world \<times> zsock option" where
  "zmqutil_msg_send f w s a =
     (case f Msg_send of
        Some e \<Rightarrow> (- 1, set_errno e w, s)
      | None \<Rightarrow> (case (s, deref w a) of
                  (Some z, Some m) \<Rightarrow> (0, w, Some (z\<lparr>to_module := to_module z @ [m]\<rparr>))
                | _ \<Rightarrow> (- 1, set_errno EINVAL w, s)))"

definition zmqutil_msg_recv ::
  "faults \<Rightarrow> world \<Rightarrow> zsock option \<Rightarrow> nat option \<times> world \<times> zsock option" where
  "zmqutil_msg_recv f w s =
     (case f Msg_recv of
        Some e \<Rightarrow> (None, set_errno e w, s)
      | None \<Rightarrow> (case s of
                  None \<Rightarrow> (None, set_errno EINVAL w, s)
                | Some z \<Rightarrow> (case from_module z of
                              [] \<Rightarrow> (None, set_errno EAGAIN w, s)
                            | m # ms \<Rightarrow>
                                (Some (length (msgs w)),
                                 w\<lparr>msgs := msgs w @ [Some m]\<rparr>,
                                 Some (z\<lparr>from_module := ms\<rparr>)))))"

subsection \<open>module_sendmsg\<close>

text \<open>The REQUEST case of the switch, with the \<^verbatim>\<open>done:\<close> label inlined: the copy is
  destroyed on every way out.\<close>

definition sendmsg_request ::
  "faults \<Rightarrow> world \<Rightarrow> broker_module \<Rightarrow> nat \<Rightarrow> int \<times> world \<times> broker_module" where
  "sendmsg_request f w p a =
     (case flux_msg_copy f w a True of
        (None, w1) \<Rightarrow> (- 1, w1, p)
      | (Some cpy, w1) \<Rightarrow>
          (case flux_msg_route_push f w1 cpy (parent_uuid_str p) of (rc, w2) \<Rightarrow>
             if rc < 0 then (- 1, flux_msg_destroy w2 (Some cpy), p)
             else (case zmqutil_msg_send f w2 (sock p) cpy of (rc', w3, s) \<Rightarrow>
                     if rc' < 0 then (- 1, flux_msg_destroy w3 (Some cpy), p\<lparr>sock := s\<rparr>)
                     else (0, flux_msg_destroy w3 (Some cpy), p\<lparr>sock := s\<rparr>))))"

definition sendmsg_response ::
  "faults \<Rightarrow> world \<Rightarrow> broker_module \<Rightarrow> nat \<Rightarrow> int \<times> world \<times> broker_module" where
  "sendmsg_response f w p a =
     (case flux_msg_copy f w a True of
        (None, w1) \<Rightarrow> (- 1, w1, p)
      | (Some cpy, w1) \<Rightarrow>
          (case flux_msg_route_delete_last f w1 cpy of (rc, w2) \<Rightarrow>
             if rc < 0 then (- 1, flux_msg_destroy w2 (Some cpy), p)
             else (case zmqutil_msg_send f w2 (sock p) cpy of (rc', w3, s) \<Rightarrow>
                     if rc' < 0 then (- 1, flux_msg_destroy w3 (Some cpy), p\<lparr>sock := s\<rparr>)
                     else (0, flux_msg_destroy w3 (Some cpy), p\<lparr>sock := s\<rparr>))))"

definition sendmsg_other ::
  "faults \<Rightarrow> world \<Rightarrow> broker_module \<Rightarrow> nat \<Rightarrow> int \<times> world \<times> broker_module" where
  "sendmsg_other f w p a =
     (case zmqutil_msg_send f w (sock p) a of (rc, w1, s) \<Rightarrow>
        if rc < 0 then (- 1, w1, p\<lparr>sock := s\<rparr>) else (0, w1, p\<lparr>sock := s\<rparr>))"

definition module_sendmsg ::
  "faults \<Rightarrow> world \<Rightarrow> broker_module \<Rightarrow> nat option \<Rightarrow> int \<times> world \<times> broker_module" where
  "module_sendmsg f w p msg =
     (case msg of
        None \<Rightarrow> (0, w, p)
      | Some a \<Rightarrow>
          (case flux_msg_get_type f w a of
             (None, w1) \<Rightarrow> (- 1, w1, p)
           | (Some ty, w1) \<Rightarrow>
               (case flux_msg_get_topic f w1 a of
                  (None, w2) \<Rightarrow> (- 1, w2, p)
                | (Some tp, w2) \<Rightarrow>
                    if muted p \<and> (ty \<noteq> FLUX_MSGTYPE_RESPONSE \<or> tp \<noteq> ''broker.module-status'')
                    then (- 1, set_errno ENOSYS w2, p)
                    else (case ty of
                            FLUX_MSGTYPE_REQUEST \<Rightarrow> sendmsg_request f w2 p a
                          | FLUX_MSGTYPE_RESPONSE \<Rightarrow> sendmsg_response f w2 p a
                          | _ \<Rightarrow> sendmsg_other f w2 p a))))"

subsection \<open>module_recvmsg\<close>

text \<open>A function of module.c that does not return: an \<^verbatim>\<open>assert\<close> that fails aborts the
  broker, and \<^verbatim>\<open>log_errn_exit\<close> ends the process.\<close>

datatype stop = Assertion_failed | Process_exit

text \<open>The switch on the message type.\<close>

definition recvmsg_route ::
  "faults \<Rightarrow> world \<Rightarrow> broker_module \<Rightarrow> msgtype \<Rightarrow> nat \<Rightarrow> int \<times> world" where
  "recvmsg_route f w p ty msg =
     (case ty of
        FLUX_MSGTYPE_RESPONSE \<Rightarrow> flux_msg_route_delete_last f w msg
      | FLUX_MSGTYPE_REQUEST \<Rightarrow> flux_msg_route_push f w msg (Some (uuid_str p))
      | FLUX_MSGTYPE_EVENT \<Rightarrow> flux_msg_route_push f w msg (Some (uuid_str p))
      | _ \<Rightarrow> (0, w))"

text \<open>The assertion on the channel credential and the credential rewrite. Every
  \<^verbatim>\<open>goto error\<close> destroys the message and returns NULL.\<close>

definition recvmsg_cred ::
  "faults \<Rightarrow> world \<Rightarrow> broker_module \<Rightarrow> nat \<Rightarrow> stop + (nat option \<times> world)" where
  "recvmsg_cred f w p msg =
     (if rolemask (cred p) AND FLUX_ROLE_OWNER = 0 then Inl Assertion_failed
      else (case flux_msg_get_cred f w msg of
              (None, w1) \<Rightarrow> Inr (None, flux_msg_destroy w1 (Some msg))
            | (Some c, w1) \<Rightarrow>
                (let c1 = (if userid c = FLUX_USERID_UNKNOWN
                           then c\<lparr>userid := userid (cred p)\<rparr> else c);
                     c2 = (if rolemask c1 = FLUX_ROLE_NONE
                           then c1\<lparr>rolemask := rolemask (cred p)\<rparr> else c1)
                 in (case flux_msg_set_cred f w1 msg c2 of (rc, w2) \<Rightarrow>
                       if rc < 0 then Inr (None, flux_msg_destroy w2 (Some msg))
                       else Inr (Some msg, w2)))))"

definition module_recvmsg ::
  "faults \<Rightarrow> world \<Rightarrow> broker_module \<Rightarrow> stop + (nat option \<times> world \<times> broker_module)" where
  "module_recvmsg f w p =
     (case zmqutil_msg_recv f w (sock p) of
        (None, w1, s) \<Rightarrow> Inr (None, w1, p\<lparr>sock := s\<rparr>)
      | (Some msg, w1, s) \<Rightarrow>
          (case flux_msg_get_type f w1 msg of
             (None, w2) \<Rightarrow> Inr (None, flux_msg_destroy w2 (Some msg), p\<lparr>sock := s\<rparr>)
           | (Some ty, w2) \<Rightarrow>
               (case recvmsg_route f w2 p ty msg of (rc, w3) \<Rightarrow>
                  if rc < 0 then Inr (None, flux_msg_destroy w3 (Some msg), p\<lparr>sock := s\<rparr>)
                  else (case recvmsg_cred f w3 p msg of
                          Inl x \<Rightarrow> Inl x
                        | Inr (r, w4) \<Rightarrow> Inr (r, w4, p\<lparr>sock := s\<rparr>)))))"

subsection \<open>module_set_status\<close>

text \<open>The two assertions, the assignment, and the call of the registered callback (an
  event of the trace; the callback is broker code and may leave any \<^verbatim>\<open>errno\<close>).\<close>

definition module_set_status ::
  "faults \<Rightarrow> world \<Rightarrow> broker_module \<Rightarrow> int \<Rightarrow> stop + (world \<times> broker_module)" where
  "module_set_status f w p new_status =
     (if new_status = FLUX_MODSTATE_INIT then Inl Assertion_failed
      else if status p = FLUX_MODSTATE_EXITED then Inl Assertion_failed
      else (let prev_status = status p;
                p1 = p\<lparr>status := new_status\<rparr>
            in (case status_cb p1 of
                  None \<Rightarrow> Inr (w, p1)
                | Some cb \<Rightarrow>
                    Inr (clobber f Status_callback
                           (log_event (Status_cb cb prev_status (status p1)) w), p1))))"

text \<open>A sequence of transitions requested one after the other.\<close>

fun set_status_seq ::
  "faults \<Rightarrow> world \<Rightarrow> broker_module \<Rightarrow> int list \<Rightarrow> stop + (world \<times> broker_module)" where
  "set_status_seq f w p [] = Inr (w, p)"
| "set_status_seq f w p (s # ss) =
     (case module_set_status f w p s of
        Inl x \<Rightarrow> Inl x
      | Inr (w1, p1) \<Rightarrow> set_status_seq f w1 p1 ss)"

subsection \<open>module_destroy\<close>

text \<open>The loop \<^verbatim>\<open>while ((msg = zlist_pop (p->rmmod))) flux_msg_destroy (msg)\<close>, from the
  head of the list.\<close>

fun destroy_rmmod :: "world \<Rightarrow> nat list \<Rightarrow> world" where
  "destroy_rmmod w [] = w"
| "destroy_rmmod w (a # as) =
     destroy_rmmod (log_event (Released (R_rmmod_msg a)) (flux_msg_destroy w (Some a))) as"

text \<open>The loop \<^verbatim>\<open>while ((s = zlist_pop (p->subs))) free (s)\<close>.\<close>

fun destroy_subs :: "world \<Rightarrow> string list \<Rightarrow> world" where
  "destroy_subs w [] = w"
| "destroy_subs w (s # ss) = destroy_subs (log_event (Released (R_sub s)) w) ss"

text \<open>The first block: join the thread if one was started, then force the transition
  to EXITED unless the record is there already. \<^verbatim>\<open>pthread_join\<close> returns its error number
  (it does not set \<^verbatim>\<open>errno\<close>), and a non-zero one ends the process.\<close>

definition destroy_join ::
  "faults \<Rightarrow> world \<Rightarrow> broker_module \<Rightarrow> stop + (world \<times> broker_module)" where
  "destroy_join f w p =
     (if t p \<noteq> 0 then
        (let e = (case f Pthread_join of None \<Rightarrow> 0 | Some e \<Rightarrow> e)
         in if e \<noteq> 0 then Inl Process_exit
            else (let w1 = log_event (Thread_joined (t p)) w
                  in if status p \<noteq> FLUX_MODSTATE_EXITED
                     then module_set_status f w1 p FLUX_MODSTATE_EXITED
                     else Inr (w1, p)))
      else Inr (w, p))"

text \<open>The rest of the body, in the order of the source (built without the address
  sanitizer, so the shared object is closed).\<close>

definition destroy_release :: "faults \<Rightarrow> world \<Rightarrow> broker_module \<Rightarrow> world" where
  "destroy_release f w p =
     (let w1 = clobber f Disconnect_destroy (log_event (Released R_disconnect) w);
          w2 = clobber f Watcher_stop (log_event Watcher_stopped w1);
          w3 = clobber f Watcher_destroy (log_event (Released R_watcher) w2);
          w4 = clobber f Zsock_destroy (log_event (Released R_sock) w3);
          w5 = clobber f Dlclose (log_event (Released R_dso) w4);
          w6 = clobber f Free_strings
                 (log_event (Released R_parent_uuid)
                   (log_event (Released R_path)
                     (log_event (Released R_name)
                       (log_event (Released R_argz) w5))));
          w7 = (case rmmod p of None \<Rightarrow> w6 | Some q \<Rightarrow> destroy_rmmod w6 q);
          w8 = (case insmod p of
                  None \<Rightarrow> w7
                | Some a \<Rightarrow> log_event (Released (R_insmod_msg a)) (flux_msg_destroy w7 (Some a)));
          w9 = (case subs p of
                  None \<Rightarrow> w8
                | Some ss \<Rightarrow> clobber f Zlist_destroy (log_event (Released R_subs) (destroy_subs w8 ss)));
          w10 = clobber f Zlist_destroy (log_event (Released R_rmmod) w9)
      in log_event (Released R_record) w10)"

definition module_destroy :: "faults \<Rightarrow> world \<Rightarrow> broker_module option \<Rightarrow> stop + world" where
  "module_destroy f w p =
     (let saved_errno = errno w
      in (case p of
            None \<Rightarrow> Inr w
          | Some m \<Rightarrow>
              (case destroy_join f w m of
                 Inl x \<Rightarrow> Inl x
               | Inr (w1, m1) \<Rightarrow> Inr (set_errno saved_errno (destroy_release f w1 m1)))))"

subsection \<open>The pending remove-module requests\<close>

text \<open>\<^verbatim>\<open>zlist_t\<close> is the list container of czmq (\<^verbatim>\<open>czmq.h\<close>, not among the sources). Its
  \<^verbatim>\<open>zlist_push\<close> puts the item at the start of the list and \<^verbatim>\<open>zlist_pop\<close> takes the item at
  the start of the list, NULL when the list is empty (\<^verbatim>\<open>zlist_append\<close>, which module.c
  does not call, is the one that adds at the end). Both assert that the list is not
  NULL.\<close>

definition zlist_push :: "'a list \<Rightarrow> 'a \<Rightarrow> 'a list" where
  "zlist_push xs x = x # xs"

definition zlist_pop :: "'a list \<Rightarrow> 'a option \<times> 'a list" where
  "zlist_pop xs = (case xs of [] \<Rightarrow> (None, []) | x # xs' \<Rightarrow> (Some x, xs'))"

definition module_push_rmmod ::
  "faults \<Rightarrow> world \<Rightarrow> broker_module \<Rightarrow> nat \<Rightarrow> stop + (int \<times> world \<times> broker_module)" where
  "module_push_rmmod f w p msg =
     (case flux_msg_copy f w msg False of
        (None, w1) \<Rightarrow> Inr (- 1, w1, p)
      | (Some cpy, w1) \<Rightarrow>
          (case rmmod p of
             None \<Rightarrow> Inl Assertion_failed
           | Some q \<Rightarrow>
               (case f Zlist_push_rmmod of
                  Some e \<Rightarrow> Inr (- 1, set_errno ENOMEM w1, p)
                | None \<Rightarrow> Inr (0, w1, p\<lparr>rmmod := Some (zlist_push q cpy)\<rparr>))))"

definition module_pop_rmmod :: "broker_module \<Rightarrow> stop + (nat option \<times> broker_module)" where
  "module_pop_rmmod p =
     (case rmmod p of
        None \<Rightarrow> Inl Assertion_failed
      | Some q \<Rightarrow> (case zlist_pop q of (r, q') \<Rightarrow> Inr (r, p\<lparr>rmmod := Some q'\<rparr>)))"

text \<open>Pushing a list of messages in order, and popping a number of times, collecting
  what each call returns.\<close>

fun push_rmmod_seq ::
  "faults \<Rightarrow> world \<Rightarrow> broker_module \<Rightarrow> nat list \<Rightarrow> stop + (int list \<times> world \<times> broker_module)" where
  "push_rmmod_seq f w p [] = Inr ([], w, p)"
| "push_rmmod_seq f w p (a # as) =
     (case module_push_rmmod f w p a of
        Inl x \<Rightarrow> Inl x
      | Inr (rc, w1, p1) \<Rightarrow>
          (case push_rmmod_seq f w1 p1 as of
             Inl x \<Rightarrow> Inl x
           | Inr (rcs, w2, p2) \<Rightarrow> Inr (rc # rcs, w2, p2)))"

fun pop_rmmod_seq :: "broker_module \<Rightarrow> nat \<Rightarrow> stop + (nat option list \<times> broker_module)" where
  "pop_rmmod_seq p 0 = Inr ([], p)"
| "pop_rmmod_seq p (Suc n) =
     (case module_pop_rmmod p of
        Inl x \<Rightarrow> Inl x
      | Inr (r, p1) \<Rightarrow>
          (case pop_rmmod_seq p1 n of
             Inl x \<Rightarrow> Inl x
           | Inr (rs, p2) \<Rightarrow> Inr (r # rs, p2)))"

subsection \<open>The getters\<close>

definition module_get_path :: "broker_module option \<Rightarrow> string" where
  "module_get_path p =
     (case p of
        None \<Rightarrow> ''unknown''
      | Some m \<Rightarrow> (case path m of None \<Rightarrow> ''unknown'' | Some s \<Rightarrow> s))"

definition module_get_name :: "broker_module option \<Rightarrow> string" where
  "module_get_name p =
     (case p of
        None \<Rightarrow> ''unknown''
      | Some m \<Rightarrow> (case name m of None \<Rightarrow> ''unknown'' | Some s \<Rightarrow> s))"

definition module_get_uuid :: "broker_module option \<Rightarrow> string" where
  "module_get_uuid p = (case p of None \<Rightarrow> ''unknown'' | Some m \<Rightarrow> uuid_str m)"

definition module_get_status :: "broker_module option \<Rightarrow> int" where
  "module_get_status p = (case p of None \<Rightarrow> 0 | Some m \<Rightarrow> status m)"

definition module_mute :: "broker_module \<Rightarrow> broker_module" where
  "module_mute p = p\<lparr>muted := True\<rparr>"

subsection \<open>module_name_from_path\<close>

text \<open>The libc calls on strings. \<^verbatim>\<open>basename\<close> gives the part of the path after its last
  slash (the GNU and the POSIX variant agree on every path that is not empty and does
  not end in a slash, which a path that \<^verbatim>\<open>dlopen\<close> accepted is); \<^verbatim>\<open>strstr\<close> gives the
  position of the first occurrence of the needle, if there is one.\<close>

definition basename :: "string \<Rightarrow> string" where
  "basename s = rev (takeWhile (\<lambda>c. c \<noteq> CHR ''/'') (rev s))"

fun strstr :: "string \<Rightarrow> string \<Rightarrow> nat option" where
  "strstr [] needle = (if needle = [] then Some 0 else None)"
| "strstr (c # cs) needle =
     (if take (length needle) (c # cs) = needle then Some 0
      else map_option Suc (strstr cs needle))"

text \<open>The name is the basename, cut where \<^verbatim>\<open>strstr\<close> finds \<^verbatim>\<open>".so"\<close> (the assignment
  \<^verbatim>\<open>*cp = '\0'\<close>). Either \<^verbatim>\<open>strdup\<close> can fail.\<close>

definition module_name_from_path :: "faults \<Rightarrow> world \<Rightarrow> string \<Rightarrow> string option \<times> world" where
  "module_name_from_path f w s =
     (case f Strdup_name_path of
        Some e \<Rightarrow> (None, set_errno e w)
      | None \<Rightarrow>
          (let nm = basename s;
               nm1 = (case strstr nm ''.so'' of None \<Rightarrow> nm | Some cp \<Rightarrow> take cp nm)
           in (case f Strdup_name_copy of
                 Some e \<Rightarrow> (None, set_errno e w)
               | None \<Rightarrow> (Some nm1, w))))"

text \<open>The spec's words for the derived name: the basename with the shared-object suffix
  stripped.\<close>

definition strip_so_suffix :: "string \<Rightarrow> string" where
  "strip_so_suffix s =
     (if 3 \<le> length s \<and> drop (length s - 3) s = ''.so'' then take (length s - 3) s else s)"

subsection \<open>module_create\<close>

text \<open>What the system gives to \<^verbatim>\<open>module_create\<close>: the shared objects that \<^verbatim>\<open>dlopen\<close> can
  load, each with the symbols \<^verbatim>\<open>dlsym\<close> finds in it (\<^verbatim>\<open>mod_main\<close>, and \<^verbatim>\<open>mod_name\<close> when it
  is defined and not NULL), the uid of the process, and the string of the uuid that
  \<^verbatim>\<open>uuid_generate\<close> makes.\<close>

record dso_image =
  dso_handle :: nat
  sym_mod_main :: "nat option"
  sym_mod_name :: "string option"

record system =
  dlopen_table :: "string \<Rightarrow> dso_image option"
  getuid :: "32 word"
  uuid_generate :: string

text \<open>The record as \<^verbatim>\<open>calloc\<close> returns it: every field zero.\<close>

definition calloc_record :: broker_module where
  "calloc_record =
     \<lparr>broker_w = None, sock = None, cred = \<lparr>userid = 0, rolemask = 0\<rparr>, uuid_str = [],
      parent_uuid_str = None, rank = 0, t = 0, main = None, name = None, path = None,
      dso = None, argz = [], status = 0, errnum = 0, muted = False, status_cb = None,
      disconnect = None, rmmod = None, insmod = None, subs = None\<rparr>"

text \<open>The loop over the JSON array of arguments: an entry that is not a string is
  skipped, a failing \<^verbatim>\<open>argz_add\<close> leaves the loop for \<^verbatim>\<open>nomem\<close>.\<close>

fun argz_add_all :: "faults \<Rightarrow> string list \<Rightarrow> string option list \<Rightarrow> string list option" where
  "argz_add_all f az [] = Some az"
| "argz_add_all f az (None # es) = argz_add_all f az es"
| "argz_add_all f az (Some s # es) =
     (case f Argz_add of Some e \<Rightarrow> None | None \<Rightarrow> argz_add_all f (az @ [s]) es)"

text \<open>The labels \<^verbatim>\<open>cleanup:\<close> and \<^verbatim>\<open>nomem:\<close>.\<close>

definition create_cleanup ::
  "faults \<Rightarrow> world \<Rightarrow> broker_module option \<Rightarrow> stop + (broker_module option \<times> world)" where
  "create_cleanup f w p =
     (case module_destroy f w p of Inl x \<Rightarrow> Inl x | Inr w1 \<Rightarrow> Inr (None, w1))"

definition create_nomem ::
  "faults \<Rightarrow> world \<Rightarrow> broker_module option \<Rightarrow> stop + (broker_module option \<times> world)" where
  "create_nomem f w p = create_cleanup f (set_errno ENOMEM w) p"

text \<open>The name: the caller's, or the one derived from the path.\<close>

definition create_name ::
  "faults \<Rightarrow> world \<Rightarrow> string option \<Rightarrow> string \<Rightarrow> string option \<times> world" where
  "create_name f w nm pth =
     (case nm of
        Some n \<Rightarrow> (case f Strdup_name of Some e \<Rightarrow> (None, set_errno e w) | None \<Rightarrow> (Some n, w))
      | None \<Rightarrow> module_name_from_path f w pth)"

text \<open>From \<^verbatim>\<open>uuid_generate\<close> to the end: the uuid, the socket and its options, the
  watcher, the credential. The calls that return nothing (\<^verbatim>\<open>uuid_generate\<close> and
  \<^verbatim>\<open>uuid_unparse\<close>, \<^verbatim>\<open>zsock_set_unbounded\<close> and \<^verbatim>\<open>zsock_set_linger\<close>) may leave an error
  number behind, so \<^verbatim>\<open>errno\<close> after a successful call is not the one on entry.\<close>

definition create_channel ::
  "system \<Rightarrow> faults \<Rightarrow> world \<Rightarrow> broker_module \<Rightarrow> stop + (broker_module option \<times> world)" where
  "create_channel sys f w p =
     (let p1 = p\<lparr>uuid_str := uuid_generate sys\<rparr>;
          w1 = clobber f Uuid_generate w
      in (case f Zsock_new_pair of
            Some e \<Rightarrow> create_cleanup f (set_errno e w1) (Some p1)
          | None \<Rightarrow>
              (let p2 = p1\<lparr>sock := Some \<lparr>to_module = [], from_module = []\<rparr>\<rparr>;
                   w2 = clobber f Zsock_set_options w1
               in (case f Zsock_bind of
                     Some e \<Rightarrow> create_cleanup f (set_errno e w2) (Some p2)
                   | None \<Rightarrow>
                       (case f Watcher_create of
                          Some e \<Rightarrow> create_cleanup f (set_errno e w2) (Some p2)
                        | None \<Rightarrow>
                            Inr (Some (p2\<lparr>broker_w := Some False,
                                          cred := \<lparr>userid = getuid sys,
                                                   rolemask = FLUX_ROLE_OWNER OR FLUX_ROLE_LOCAL\<rparr>\<rparr>),
                                 w2))))))"

text \<open>From the copy of the parent uuid to the check of the legacy \<^verbatim>\<open>mod_name\<close> symbol.\<close>

definition create_fields ::
  "system \<Rightarrow> faults \<Rightarrow> world \<Rightarrow> broker_module \<Rightarrow> dso_image \<Rightarrow> string \<Rightarrow> string option \<Rightarrow>
   string \<Rightarrow> string option list option \<Rightarrow> stop + (broker_module option \<times> world)" where
  "create_fields sys f w p img parent_uuid nm pth args =
     (case f Strdup_parent_uuid of
        Some e \<Rightarrow> create_nomem f w (Some p)
      | None \<Rightarrow>
     (let p1 = p\<lparr>parent_uuid_str := Some parent_uuid, uuid_str := take 36 parent_uuid\<rparr>
      in (case (case args of None \<Rightarrow> Some (argz p1) | Some es \<Rightarrow> argz_add_all f (argz p1) es) of
            None \<Rightarrow> create_nomem f w (Some p1)
          | Some az \<Rightarrow>
     (let p2 = p1\<lparr>argz := az\<rparr>
      in (case f Strdup_path of
            Some e \<Rightarrow> create_nomem f w (Some p2)
          | None \<Rightarrow>
     (let p3 = p2\<lparr>path := Some pth\<rparr>
      in (case f Zlist_new_rmmod of
            Some e \<Rightarrow> create_nomem f w (Some p3)
          | None \<Rightarrow>
     (let p4 = p3\<lparr>rmmod := Some []\<rparr>
      in (case f Zlist_new_subs of
            Some e \<Rightarrow> create_nomem f w (Some p4)
          | None \<Rightarrow>
     (let p5 = p4\<lparr>subs := Some []\<rparr>
      in (case create_name f w nm pth of
            (None, w1) \<Rightarrow> create_nomem f w1 (Some p5)
          | (Some n, w1) \<Rightarrow>
     (let p6 = p5\<lparr>name := Some n\<rparr>
      in if (case sym_mod_name img of None \<Rightarrow> False | Some mn \<Rightarrow> mn \<noteq> n)
         then create_cleanup f (set_errno EINVAL w1) (Some p6)
         else create_channel sys f w1 p6))))))))))))"

text \<open>The parameters \<^verbatim>\<open>h\<close>, \<^verbatim>\<open>attrs\<close> and \<^verbatim>\<open>error\<close> (the text of the error message) are
  left out. A shared object without \<^verbatim>\<open>mod_main\<close> is closed again before \<^verbatim>\<open>errno\<close> is
  set.\<close>

definition module_create ::
  "system \<Rightarrow> faults \<Rightarrow> world \<Rightarrow> string \<Rightarrow> string option \<Rightarrow> string \<Rightarrow> int \<Rightarrow>
   string option list option \<Rightarrow> stop + (broker_module option \<times> world)" where
  "module_create sys f w parent_uuid nm pth rnk args =
     (case dlopen_table sys pth of
        None \<Rightarrow> Inr (None, set_errno ENOENT w)
      | Some img \<Rightarrow>
          (case sym_mod_main img of
             None \<Rightarrow>
               Inr (None, set_errno EINVAL (clobber f Dlclose (log_event (Released R_dso) w)))
           | Some mm \<Rightarrow>
               (case f Calloc_record of
                  Some e \<Rightarrow> create_nomem f w None
                | None \<Rightarrow>
                    create_fields sys f w
                      (calloc_record\<lparr>main := Some mm, dso := Some (dso_handle img), rank := rnk\<rparr>)
                      img parent_uuid nm pth args)))"

subsection \<open>Concrete inputs\<close>

definition no_faults :: faults where
  "no_faults = (\<lambda>c. None)"

text \<open>A record as \<^verbatim>\<open>module_create\<close> leaves it, for the module \<^verbatim>\<open>./mod_echo.so\<close> loaded by
  the broker \<^verbatim>\<open>B\<close>, and a world holding a request and a status response.\<close>

definition example_module :: broker_module where
  "example_module =
     calloc_record\<lparr>broker_w := Some False, sock := Some \<lparr>to_module = [], from_module = []\<rparr>,
       cred := \<lparr>userid = 1000, rolemask = FLUX_ROLE_OWNER OR FLUX_ROLE_LOCAL\<rparr>,
       uuid_str := ''uuid-of-module'', parent_uuid_str := Some ''B'', main := Some 1,
       name := Some ''mod_echo'', path := Some ''./mod_echo.so'', dso := Some 1,
       rmmod := Some [], subs := Some []\<rparr>"

definition example_request :: flux_msg where
  "example_request =
     \<lparr>mtype = FLUX_MSGTYPE_REQUEST, routes = [''A''], topic = ''x.y'',
      mcred = \<lparr>userid = 1000, rolemask = FLUX_ROLE_OWNER\<rparr>, payload = ''ping''\<rparr>"

definition example_response :: flux_msg where
  "example_response =
     \<lparr>mtype = FLUX_MSGTYPE_RESPONSE, routes = [''uuid-of-module''],
      topic = ''broker.module-status'',
      mcred = \<lparr>userid = 1000, rolemask = FLUX_ROLE_OWNER\<rparr>, payload = []\<rparr>"

definition example_world :: world where
  "example_world =
     \<lparr>errno = 0, msgs = [Some example_request, Some example_response], trace = []\<rparr>"

text \<open>Messages a module sends to the broker: one that carries no credential, one that
  carries the credential of another user. The record with such a message waiting on
  its channel.\<close>

definition anonymous_request :: flux_msg where
  "anonymous_request =
     \<lparr>mtype = FLUX_MSGTYPE_REQUEST, routes = [], topic = ''kvs.get'',
      mcred = \<lparr>userid = FLUX_USERID_UNKNOWN, rolemask = FLUX_ROLE_NONE\<rparr>, payload = ''key''\<rparr>"

definition guest_request :: flux_msg where
  "guest_request =
     \<lparr>mtype = FLUX_MSGTYPE_REQUEST, routes = [], topic = ''kvs.get'',
      mcred = \<lparr>userid = 5, rolemask = FLUX_ROLE_USER\<rparr>, payload = ''key''\<rparr>"

definition module_with_inbound :: "flux_msg \<Rightarrow> broker_module" where
  "module_with_inbound m =
     example_module\<lparr>sock := Some \<lparr>to_module = [], from_module = [m]\<rparr>\<rparr>"

text \<open>The same record with a channel credential that has the LOCAL role only.\<close>

definition unowned_module :: "flux_msg \<Rightarrow> broker_module" where
  "unowned_module m =
     (module_with_inbound m)\<lparr>cred := \<lparr>userid = 1000, rolemask = FLUX_ROLE_LOCAL\<rparr>\<rparr>"

text \<open>The events of the trace that take the record apart.\<close>

fun is_teardown :: "event \<Rightarrow> bool" where
  "is_teardown (Released r) = True"
| "is_teardown Watcher_stopped = True"
| "is_teardown (Thread_joined n) = False"
| "is_teardown (Status_cb cb a b) = False"

text \<open>A record whose thread runs, with a status callback registered, and a run in
  which every library call but \<^verbatim>\<open>pthread_join\<close> leaves \<^verbatim>\<open>EINVAL\<close> in \<^verbatim>\<open>errno\<close>.\<close>

definition running_module :: broker_module where
  "running_module =
     example_module\<lparr>t := 7, status := FLUX_MODSTATE_RUNNING, status_cb := Some 1\<rparr>"

definition clobbering_faults :: faults where
  "clobbering_faults = (\<lambda>c. if c = Pthread_join then None else Some EINVAL)"

text \<open>Pushing a list of messages and then popping a number of times: the messages the
  pops return (the content of the copies they point to), in the order of the pops.\<close>

definition push_then_pop ::
  "faults \<Rightarrow> world \<Rightarrow> broker_module \<Rightarrow> nat list \<Rightarrow> nat \<Rightarrow> stop + flux_msg option list" where
  "push_then_pop f w p as n =
     (case push_rmmod_seq f w p as of
        Inl x \<Rightarrow> Inl x
      | Inr (rcs, w1, p1) \<Rightarrow>
          (case pop_rmmod_seq p1 n of
             Inl x \<Rightarrow> Inl x
           | Inr (rs, p2) \<Rightarrow> Inr (map (\<lambda>r. case r of None \<Rightarrow> None | Some c \<Rightarrow> deref w1 c) rs)))"

text \<open>A system in which two shared objects can be loaded, each defining \<^verbatim>\<open>mod_main\<close> and
  no \<^verbatim>\<open>mod_name\<close>.\<close>

definition example_objects :: "string \<Rightarrow> dso_image option" where
  "example_objects pth =
     (if pth = ''./mod_echo.so'' \<or> pth = ''./mod.sock.so''
      then Some \<lparr>dso_handle = 1, sym_mod_main = Some 1, sym_mod_name = None\<rparr>
      else None)"

definition example_system :: system where
  "example_system =
     \<lparr>dlopen_table = example_objects, getuid = 1000, uuid_generate = ''uuid-of-module''\<rparr>"

section \<open>Properties\<close>

subsection \<open>The heap of messages\<close>

lemma deref_append [simp]:
  "deref (w\<lparr>msgs := msgs w @ [x]\<rparr>) a = (if a = length (msgs w) then x else deref w a)"
  by (auto simp: deref_def nth_append)

lemma deref_update [simp]:
  "deref (w\<lparr>msgs := (msgs w)[b := x]\<rparr>) a =
     (if a = b \<and> b < length (msgs w) then x else deref w a)"
  by (auto simp: deref_def)

lemma deref_set_errno [simp]: "deref (set_errno e w) a = deref w a"
  by (simp add: deref_def set_errno_def)

lemma deref_lt: "deref w a = Some m \<Longrightarrow> a < length (msgs w)"
  by (simp add: deref_def split: if_splits)

lemmas msg_defs = flux_msg_get_type_def flux_msg_get_topic_def flux_msg_copy_def
  flux_msg_route_push_def flux_msg_route_delete_last_def flux_msg_destroy_def
  flux_msg_get_cred_def flux_msg_set_cred_def zmqutil_msg_send_def zmqutil_msg_recv_def

lemmas sendmsg_defs = module_sendmsg_def sendmsg_request_def sendmsg_response_def
  sendmsg_other_def

lemmas example_defs = example_module_def calloc_record_def example_request_def
  example_response_def example_world_def no_faults_def

subsection \<open>Creating a record\<close>

text \<open>What a successful \<^verbatim>\<open>module_create\<close> returns. The cleanup paths return NULL.\<close>

lemma create_cleanup_None: "create_cleanup f w p = Inr (r, w') \<Longrightarrow> r = None"
  by (auto simp: create_cleanup_def split: sum.splits)

lemma create_nomem_None: "create_nomem f w p = Inr (r, w') \<Longrightarrow> r = None"
  by (auto simp: create_nomem_def dest: create_cleanup_None)

lemma create_channel_result:
  "create_channel sys f w p = Inr (Some p', w') \<Longrightarrow>
   w' = clobber f Zsock_set_options (clobber f Uuid_generate w) \<and>
   p' = p\<lparr>uuid_str := uuid_generate sys, sock := Some \<lparr>to_module = [], from_module = []\<rparr>,
          broker_w := Some False,
          cred := \<lparr>userid = getuid sys, rolemask = FLUX_ROLE_OWNER OR FLUX_ROLE_LOCAL\<rparr>\<rparr>"
  by (auto simp: create_channel_def Let_def split: option.splits dest: create_cleanup_None)

lemma create_fields_result:
  "create_fields sys f w p img pu nm pth args = Inr (Some p', w') \<Longrightarrow>
   (\<exists>n w2. create_name f w nm pth = (Some n, w2) \<and> name p' = Some n) \<and>
   cred p' = \<lparr>userid = getuid sys, rolemask = FLUX_ROLE_OWNER OR FLUX_ROLE_LOCAL\<rparr> \<and>
   status p' = status p \<and> t p' = t p \<and> muted p' = muted p \<and>
   rmmod p' = Some [] \<and> subs p' = Some [] \<and> path p' = Some pth \<and>
   parent_uuid_str p' = Some pu \<and> uuid_str p' = uuid_generate sys \<and>
   sock p' = Some \<lparr>to_module = [], from_module = []\<rparr>"
  apply (simp add: create_fields_def Let_def split: option.splits prod.splits if_splits)
  apply (auto dest!: create_cleanup_None create_nomem_None create_channel_result)
  done

lemma module_create_result:
  "module_create sys f w pu nm pth rnk args = Inr (Some p, w') \<Longrightarrow>
   (\<exists>n w2. create_name f w nm pth = (Some n, w2) \<and> name p = Some n) \<and>
   cred p = \<lparr>userid = getuid sys, rolemask = FLUX_ROLE_OWNER OR FLUX_ROLE_LOCAL\<rparr> \<and>
   status p = FLUX_MODSTATE_INIT \<and> t p = 0 \<and> \<not> muted p \<and>
   rmmod p = Some [] \<and> subs p = Some [] \<and> path p = Some pth \<and>
   parent_uuid_str p = Some pu \<and> uuid_str p = uuid_generate sys \<and>
   sock p = Some \<lparr>to_module = [], from_module = []\<rparr>"
  apply (simp add: module_create_def split: option.splits)
   apply (auto dest!: create_nomem_None create_fields_result
      simp: calloc_record_def FLUX_MODSTATE_INIT_def)
  done

lemma module_create_echo:
  "module_create example_system no_faults example_world ''B'' None ''./mod_echo.so'' 0 None
     = Inr (Some example_module, example_world)"
  by (simp add: module_create_def create_fields_def create_channel_def create_name_def
      module_name_from_path_def basename_def Let_def example_system_def example_objects_def
      example_defs clobber_def)

subsection \<open>Sending\<close>

text \<open>C1. On a record that is not muted, \<^verbatim>\<open>module_sendmsg\<close> leaves the caller's message
  as it was. It returns 0 or -1, and -1 only with nothing put on the channel. When it
  returns 0, exactly one frame was added to the channel: for a REQUEST the message with
  \<^verbatim>\<open>parent_uuid_str\<close> pushed, so that the top (last) route entry is the parent uuid; for a
  RESPONSE the message with its last route entry popped, one entry shorter; for any
  other type the message itself. With no failing library call, a socket, a parent uuid
  for a REQUEST and a route entry to pop for a RESPONSE, it returns 0.\<close>

theorem module_sendmsg_rewrites:
  "\<not> muted p \<Longrightarrow> deref w a = Some m \<Longrightarrow> module_sendmsg f w p (Some a) = (rc, w', p') \<Longrightarrow>
   deref w' a = Some m \<and>
   p' = p\<lparr>sock := sock p'\<rparr> \<and>
   (rc = 0 \<or> (rc = - 1 \<and> sock p' = sock p)) \<and>
   (rc = 0 \<longrightarrow>
      (\<exists>z fr. sock p = Some z \<and> sock p' = Some (z\<lparr>to_module := to_module z @ [fr]\<rparr>) \<and>
         (mtype m = FLUX_MSGTYPE_REQUEST \<longrightarrow>
            (\<exists>u. parent_uuid_str p = Some u \<and> fr = m\<lparr>routes := routes m @ [u]\<rparr> \<and>
                 last (routes fr) = u)) \<and>
         (mtype m = FLUX_MSGTYPE_RESPONSE \<longrightarrow>
            fr = m\<lparr>routes := butlast (routes m)\<rparr> \<and>
            Suc (length (routes fr)) = length (routes m)) \<and>
         (mtype m \<noteq> FLUX_MSGTYPE_REQUEST \<and> mtype m \<noteq> FLUX_MSGTYPE_RESPONSE \<longrightarrow> fr = m))) \<and>
   ((\<forall>c. f c = None) \<and> sock p \<noteq> None \<and>
    (mtype m = FLUX_MSGTYPE_REQUEST \<longrightarrow> parent_uuid_str p \<noteq> None) \<and>
    (mtype m = FLUX_MSGTYPE_RESPONSE \<longrightarrow> routes m \<noteq> []) \<longrightarrow> rc = 0)"
  apply (frule deref_lt)
  apply (cases "mtype m")
     apply (auto simp: sendmsg_defs msg_defs split: option.splits if_splits prod.splits)
  done

theorem module_sendmsg_rewrites_witness:
  "\<not> muted example_module \<and> deref example_world 0 = Some example_request \<and>
   fst (module_sendmsg no_faults example_world example_module (Some 0)) = 0 \<and>
   map_option to_module
     (sock (snd (snd (module_sendmsg no_faults example_world example_module (Some 0)))))
     = Some [example_request\<lparr>routes := [''A'', ''B'']\<rparr>] \<and>
   deref (fst (snd (module_sendmsg no_faults example_world example_module (Some 0)))) 0
     = Some example_request"
proof -
  have h1: "\<not> muted example_module"
    by (simp add: example_defs)
  have h2: "deref example_world 0 = Some example_request"
    by (simp add: example_defs deref_def)
  obtain rc w' p' where
    h3: "module_sendmsg no_faults example_world example_module (Some 0) = (rc, w', p')"
    by (metis prod_cases3)
  have more: "sock example_module = Some \<lparr>to_module = [], from_module = []\<rparr>"
    "parent_uuid_str example_module = Some ''B''"
    "mtype example_request = FLUX_MSGTYPE_REQUEST" "routes example_request = [''A'']"
    "\<forall>c. no_faults c = None"
    by (simp_all add: example_defs)
  from module_sendmsg_rewrites [OF h1 h2 h3] more
  have "rc = 0" and "deref w' 0 = Some example_request"
    and "map_option to_module (sock p') = Some [example_request\<lparr>routes := [''A'', ''B'']\<rparr>]"
    by auto
  with h1 h2 h3 show ?thesis by simp
qed

text \<open>C3. On a muted record, a message that is not a RESPONSE or whose topic is not
  \<^verbatim>\<open>broker.module-status\<close> is refused: \<^verbatim>\<open>module_sendmsg\<close> returns -1, the record and with it
  the channel are unchanged, no message object is made or changed, and \<^verbatim>\<open>errno\<close> is
  \<^verbatim>\<open>ENOSYS\<close> whenever the type and the topic could be read. A RESPONSE with that topic
  is sent: with no failing library call, a socket and a route entry to pop, the call
  returns 0 and the rewritten frame is on the channel.\<close>

theorem module_sendmsg_muted:
  "muted p \<Longrightarrow> deref w a = Some m \<Longrightarrow> module_sendmsg f w p (Some a) = (rc, w', p') \<Longrightarrow>
   (mtype m \<noteq> FLUX_MSGTYPE_RESPONSE \<or> topic m \<noteq> ''broker.module-status'' \<longrightarrow>
      rc = - 1 \<and> p' = p \<and> msgs w' = msgs w \<and>
      (f Msg_get_type = None \<and> f Msg_get_topic = None \<longrightarrow> errno w' = ENOSYS)) \<and>
   (mtype m = FLUX_MSGTYPE_RESPONSE \<and> topic m = ''broker.module-status'' \<and>
    (\<forall>c. f c = None) \<and> sock p = Some z \<and> routes m \<noteq> [] \<longrightarrow>
      rc = 0 \<and> errno w' = errno w \<and>
      p' = p\<lparr>sock := Some (z\<lparr>to_module := to_module z @ [m\<lparr>routes := butlast (routes m)\<rparr>]\<rparr>)\<rparr>)"
  apply (frule deref_lt)
  apply (auto simp: sendmsg_defs msg_defs set_errno_def
      split: option.splits if_splits prod.splits)
  done

theorem module_sendmsg_muted_witness:
  "muted (module_mute example_module) \<and>
   deref example_world 0 = Some example_request \<and>
   deref example_world 1 = Some example_response \<and>
   fst (module_sendmsg no_faults example_world (module_mute example_module) (Some 0)) = - 1 \<and>
   errno (fst (snd (module_sendmsg no_faults example_world (module_mute example_module) (Some 0))))
     = ENOSYS \<and>
   snd (snd (module_sendmsg no_faults example_world (module_mute example_module) (Some 0)))
     = module_mute example_module \<and>
   fst (module_sendmsg no_faults example_world (module_mute example_module) (Some 1)) = 0 \<and>
   map_option to_module
     (sock (snd (snd (module_sendmsg no_faults example_world (module_mute example_module) (Some 1)))))
     = Some [example_response\<lparr>routes := []\<rparr>]"
proof -
  let ?p = "module_mute example_module"
  have h1: "muted ?p"
    by (simp add: module_mute_def)
  have h2: "deref example_world 0 = Some example_request"
    and h2': "deref example_world 1 = Some example_response"
    by (simp_all add: example_defs deref_def)
  obtain rc w' p' where
    h3: "module_sendmsg no_faults example_world ?p (Some 0) = (rc, w', p')"
    by (metis prod_cases3)
  obtain rc1 w1 p1 where
    h4: "module_sendmsg no_faults example_world ?p (Some 1) = (rc1, w1, p1)"
    by (metis prod_cases3)
  have more: "sock ?p = Some \<lparr>to_module = [], from_module = []\<rparr>"
    "mtype example_request = FLUX_MSGTYPE_REQUEST"
    "mtype example_response = FLUX_MSGTYPE_RESPONSE"
    "topic example_response = ''broker.module-status''"
    "routes example_response = [''uuid-of-module'']"
    "\<forall>c. no_faults c = None"
    by (simp_all add: example_defs module_mute_def)
  from module_sendmsg_muted [OF h1 h2 h3] more
  have a: "rc = - 1" "errno w' = ENOSYS" "p' = ?p"
    by auto
  from module_sendmsg_muted [OF h1 h2' h4, of "\<lparr>to_module = [], from_module = []\<rparr>"] more
  have b: "rc1 = 0"
    "p1 = ?p\<lparr>sock := Some \<lparr>to_module = [example_response\<lparr>routes := []\<rparr>], from_module = []\<rparr>\<rparr>"
    by auto
  from a b h1 h2 h2' h3 h4 show ?thesis by simp
qed

subsection \<open>Receiving\<close>

text \<open>What \<^verbatim>\<open>module_recvmsg\<close> returns when it returns a message: the oldest frame of the
  channel, with the route stack and the credential rewritten.\<close>

lemma recvmsg_result:
  assumes "sock p = Some z" and "from_module z = m # ms"
    and "module_recvmsg f w p = Inr (Some r, w', p')"
  shows "p' = p\<lparr>sock := Some (z\<lparr>from_module := ms\<rparr>)\<rparr> \<and>
     deref w' r = Some (m\<lparr>routes :=
         (if mtype m = FLUX_MSGTYPE_RESPONSE then butlast (routes m)
          else if mtype m = FLUX_MSGTYPE_REQUEST \<or> mtype m = FLUX_MSGTYPE_EVENT
          then routes m @ [uuid_str p] else routes m),
       mcred := \<lparr>userid = (if userid (mcred m) = FLUX_USERID_UNKNOWN then userid (cred p)
                            else userid (mcred m)),
                 rolemask = (if rolemask (mcred m) = FLUX_ROLE_NONE then rolemask (cred p)
                             else rolemask (mcred m))\<rparr>\<rparr>)"
  using assms
  apply (cases "mtype m")
     apply (auto simp: module_recvmsg_def recvmsg_route_def recvmsg_cred_def msg_defs Let_def
      split: option.splits if_splits prod.splits sum.splits)
  done

lemma recvmsg_returns:
  assumes "sock p = Some z" and "from_module z = m # ms" and "\<forall>c. f c = None"
    and "rolemask (cred p) AND FLUX_ROLE_OWNER \<noteq> 0"
    and "mtype m = FLUX_MSGTYPE_RESPONSE \<longrightarrow> routes m \<noteq> []"
  shows "\<exists>r w' p'. module_recvmsg f w p = Inr (Some r, w', p')"
  using assms
  apply (cases "mtype m")
     apply (auto simp: module_recvmsg_def recvmsg_route_def recvmsg_cred_def msg_defs Let_def
      split: option.splits if_splits prod.splits sum.splits)
  done

lemma recvmsg_guest:
  "module_recvmsg no_faults example_world (module_with_inbound guest_request)
     = Inr (Some 2,
            example_world\<lparr>msgs := msgs example_world @
               [Some (guest_request\<lparr>routes := [''uuid-of-module'']\<rparr>)]\<rparr>,
            example_module)"
  by (simp add: module_recvmsg_def recvmsg_route_def recvmsg_cred_def msg_defs Let_def
      example_defs module_with_inbound_def guest_request_def deref_def
      FLUX_ROLE_OWNER_def FLUX_ROLE_LOCAL_def FLUX_ROLE_USER_def FLUX_ROLE_NONE_def
      FLUX_USERID_UNKNOWN_def set_errno_def)

text \<open>C2. A message that \<^verbatim>\<open>module_recvmsg\<close> returns is the oldest frame the module sent,
  taken off the channel, with its route stack rewritten by type (the last entry popped
  for a RESPONSE, the record's uuid pushed for a REQUEST or an EVENT, unchanged
  otherwise) and its credential normalized (an unknown userid replaced by the channel's
  userid, an empty rolemask by the channel's rolemask, any other value kept); type,
  topic and payload are kept. With no failing library call, the OWNER bit in the
  channel credential and a route entry to pop for a RESPONSE, a message is returned.\<close>

theorem module_recvmsg_rewrites:
  "sock p = Some z \<Longrightarrow> from_module z = m # ms \<Longrightarrow>
   (\<forall>r w' p'. module_recvmsg f w p = Inr (Some r, w', p') \<longrightarrow>
      p' = p\<lparr>sock := Some (z\<lparr>from_module := ms\<rparr>)\<rparr> \<and>
      (\<exists>m'. deref w' r = Some m' \<and>
         routes m' =
           (if mtype m = FLUX_MSGTYPE_RESPONSE then butlast (routes m)
            else if mtype m = FLUX_MSGTYPE_REQUEST \<or> mtype m = FLUX_MSGTYPE_EVENT
            then routes m @ [uuid_str p] else routes m) \<and>
         userid (mcred m') =
           (if userid (mcred m) = FLUX_USERID_UNKNOWN then userid (cred p)
            else userid (mcred m)) \<and>
         rolemask (mcred m') =
           (if rolemask (mcred m) = FLUX_ROLE_NONE then rolemask (cred p)
            else rolemask (mcred m)) \<and>
         mtype m' = mtype m \<and> topic m' = topic m \<and> payload m' = payload m)) \<and>
   ((\<forall>c. f c = None) \<and> rolemask (cred p) AND FLUX_ROLE_OWNER \<noteq> 0 \<and>
    (mtype m = FLUX_MSGTYPE_RESPONSE \<longrightarrow> routes m \<noteq> []) \<longrightarrow>
      (\<exists>r w' p'. module_recvmsg f w p = Inr (Some r, w', p')))"
proof (intro conjI allI impI)
  fix r w' p'
  assume s: "sock p = Some z" "from_module z = m # ms"
    and r: "module_recvmsg f w p = Inr (Some r, w', p')"
  from recvmsg_result [OF s r]
  show "p' = p\<lparr>sock := Some (z\<lparr>from_module := ms\<rparr>)\<rparr>" by simp
  from recvmsg_result [OF s r]
  show "\<exists>m'. deref w' r = Some m' \<and>
         routes m' =
           (if mtype m = FLUX_MSGTYPE_RESPONSE then butlast (routes m)
            else if mtype m = FLUX_MSGTYPE_REQUEST \<or> mtype m = FLUX_MSGTYPE_EVENT
            then routes m @ [uuid_str p] else routes m) \<and>
         userid (mcred m') =
           (if userid (mcred m) = FLUX_USERID_UNKNOWN then userid (cred p)
            else userid (mcred m)) \<and>
         rolemask (mcred m') =
           (if rolemask (mcred m) = FLUX_ROLE_NONE then rolemask (cred p)
            else rolemask (mcred m)) \<and>
         mtype m' = mtype m \<and> topic m' = topic m \<and> payload m' = payload m"
    by simp
next
  assume "sock p = Some z" "from_module z = m # ms"
    "(\<forall>c. f c = None) \<and> rolemask (cred p) AND FLUX_ROLE_OWNER \<noteq> 0 \<and>
      (mtype m = FLUX_MSGTYPE_RESPONSE \<longrightarrow> routes m \<noteq> [])"
  then show "\<exists>r w' p'. module_recvmsg f w p = Inr (Some r, w', p')"
    using recvmsg_returns by blast
qed

theorem module_recvmsg_rewrites_witness:
  "sock (module_with_inbound anonymous_request)
     = Some \<lparr>to_module = [], from_module = [anonymous_request]\<rparr> \<and>
   (\<exists>r w' p' m'. module_recvmsg no_faults example_world (module_with_inbound anonymous_request)
        = Inr (Some r, w', p') \<and>
      sock p' = Some \<lparr>to_module = [], from_module = []\<rparr> \<and>
      deref w' r = Some m' \<and> routes m' = [''uuid-of-module''] \<and>
      userid (mcred m') = 1000 \<and> rolemask (mcred m') = FLUX_ROLE_OWNER OR FLUX_ROLE_LOCAL \<and>
      topic m' = ''kvs.get'')"
proof -
  let ?p = "module_with_inbound anonymous_request"
  let ?z = "\<lparr>to_module = [], from_module = [anonymous_request]\<rparr>"
  have h1: "sock ?p = Some ?z"
    by (simp add: module_with_inbound_def)
  have h2: "from_module ?z = anonymous_request # []"
    by simp
  have more: "\<forall>c. no_faults c = None"
    "rolemask (cred ?p) AND FLUX_ROLE_OWNER \<noteq> 0"
    "mtype anonymous_request = FLUX_MSGTYPE_REQUEST"
    by (simp_all add: example_defs module_with_inbound_def anonymous_request_def
        FLUX_ROLE_OWNER_def FLUX_ROLE_LOCAL_def)
  note inst = module_recvmsg_rewrites [OF h1 h2, of no_faults example_world]
  from inst more obtain r w' p' where
    r: "module_recvmsg no_faults example_world ?p = Inr (Some r, w', p')"
    by auto
  from inst r obtain m' where
    "p' = ?p\<lparr>sock := Some (?z\<lparr>from_module := []\<rparr>)\<rparr>" "deref w' r = Some m'"
    "routes m' = routes anonymous_request @ [uuid_str ?p]"
    "userid (mcred m') = userid (cred ?p)" "rolemask (mcred m') = rolemask (cred ?p)"
    "topic m' = topic anonymous_request"
    by (auto simp: anonymous_request_def)
  with r h1 show ?thesis
    by (auto simp: example_defs module_with_inbound_def anonymous_request_def)
qed

text \<open>The assertion of \<^verbatim>\<open>module_recvmsg\<close> reads the channel credential of the record and
  nothing of the message: when a frame was received and its route stack rewritten, a
  record without the OWNER bit stops at the assertion, and \<^verbatim>\<open>module_recvmsg\<close> stops
  nowhere else.\<close>

lemma recvmsg_asserts:
  assumes "sock p = Some z" and "from_module z = m # ms"
    and "module_recvmsg f w p = Inr (Some r, w', p')"
    and "sock q = Some z" and "rolemask (cred q) AND FLUX_ROLE_OWNER = 0"
  shows "module_recvmsg f w q = Inl Assertion_failed"
  using assms
  apply (cases "mtype m")
     apply (auto simp: module_recvmsg_def recvmsg_route_def recvmsg_cred_def msg_defs Let_def
      split: option.splits if_splits prod.splits sum.splits)
  done

lemma recvmsg_stops:
  "module_recvmsg f w q = Inl x \<Longrightarrow>
   x = Assertion_failed \<and> rolemask (cred q) AND FLUX_ROLE_OWNER = 0"
  by (auto simp: module_recvmsg_def recvmsg_cred_def Let_def
      split: option.splits if_splits prod.splits sum.splits)

text \<open>C5, as the code has it. Let a record have the channel credential that
  \<^verbatim>\<open>module_create\<close> gave it. That credential is the uid of the process with the rolemask
  OWNER|LOCAL, and a message that \<^verbatim>\<open>module_recvmsg\<close> returns has the rolemask OWNER|LOCAL
  when the frame carried the empty rolemask, and otherwise the rolemask the frame
  carried: the OWNER bit is set exactly when the frame carried no rolemask or carried
  one with the OWNER bit. The assertion is on the channel credential, not on the
  message: on a record whose channel credential lacks the OWNER bit the same frame makes
  \<^verbatim>\<open>module_recvmsg\<close> fail its assertion, whatever rolemask the frame carries, and a record
  whose channel credential has the OWNER bit never fails it.\<close>

theorem module_recvmsg_rolemask:
  "module_create sys f0 w0 pu nm pth rnk args = Inr (Some p0, w1) \<Longrightarrow> cred p = cred p0 \<Longrightarrow>
   sock p = Some z \<Longrightarrow> from_module z = m # ms \<Longrightarrow>
   module_recvmsg f w p = Inr (Some r, w', p') \<Longrightarrow>
   cred p = \<lparr>userid = getuid sys, rolemask = FLUX_ROLE_OWNER OR FLUX_ROLE_LOCAL\<rparr> \<and>
   (\<exists>m'. deref w' r = Some m' \<and>
      rolemask (mcred m') =
        (if rolemask (mcred m) = FLUX_ROLE_NONE then FLUX_ROLE_OWNER OR FLUX_ROLE_LOCAL
         else rolemask (mcred m)) \<and>
      ((rolemask (mcred m') AND FLUX_ROLE_OWNER \<noteq> 0) =
       (rolemask (mcred m) = FLUX_ROLE_NONE \<or> rolemask (mcred m) AND FLUX_ROLE_OWNER \<noteq> 0))) \<and>
   (\<forall>q. sock q = Some z \<and> rolemask (cred q) AND FLUX_ROLE_OWNER = 0 \<longrightarrow>
      module_recvmsg f w q = Inl Assertion_failed) \<and>
   (\<forall>q f' w2 x. module_recvmsg f' w2 q = Inl x \<longrightarrow>
      x = Assertion_failed \<and> rolemask (cred q) AND FLUX_ROLE_OWNER = 0)"
proof -
  assume mk: "module_create sys f0 w0 pu nm pth rnk args = Inr (Some p0, w1)"
    and same: "cred p = cred p0"
    and s: "sock p = Some z" "from_module z = m # ms"
    and r: "module_recvmsg f w p = Inr (Some r, w', p')"
  from module_create_result [OF mk] same
  have c: "cred p = \<lparr>userid = getuid sys, rolemask = FLUX_ROLE_OWNER OR FLUX_ROLE_LOCAL\<rparr>"
    by simp
  have own: "(FLUX_ROLE_OWNER OR FLUX_ROLE_LOCAL) AND FLUX_ROLE_OWNER \<noteq> 0"
    by (simp add: FLUX_ROLE_OWNER_def FLUX_ROLE_LOCAL_def)
  have none: "FLUX_ROLE_NONE AND FLUX_ROLE_OWNER = 0"
    by (simp add: FLUX_ROLE_NONE_def)
  from recvmsg_result [OF s r] c own none
  have msg: "\<exists>m'. deref w' r = Some m' \<and>
      rolemask (mcred m') =
        (if rolemask (mcred m) = FLUX_ROLE_NONE then FLUX_ROLE_OWNER OR FLUX_ROLE_LOCAL
         else rolemask (mcred m)) \<and>
      ((rolemask (mcred m') AND FLUX_ROLE_OWNER \<noteq> 0) =
       (rolemask (mcred m) = FLUX_ROLE_NONE \<or> rolemask (mcred m) AND FLUX_ROLE_OWNER \<noteq> 0))"
    by auto
  have abort: "\<forall>q. sock q = Some z \<and> rolemask (cred q) AND FLUX_ROLE_OWNER = 0 \<longrightarrow>
      module_recvmsg f w q = Inl Assertion_failed"
    using recvmsg_asserts [OF s r] by blast
  have only: "\<forall>q f' w2 x. module_recvmsg f' w2 q = Inl x \<longrightarrow>
      x = Assertion_failed \<and> rolemask (cred q) AND FLUX_ROLE_OWNER = 0"
    using recvmsg_stops by blast
  from c msg abort only show ?thesis
    by blast
qed

theorem module_recvmsg_rolemask_witness:
  "module_create example_system no_faults example_world ''B'' None ''./mod_echo.so'' 0 None
     = Inr (Some example_module, example_world) \<and>
   cred (module_with_inbound guest_request) = cred example_module \<and>
   sock (module_with_inbound guest_request)
     = Some \<lparr>to_module = [], from_module = [guest_request]\<rparr> \<and>
   (\<exists>w' p' m'. module_recvmsg no_faults example_world (module_with_inbound guest_request)
        = Inr (Some 2, w', p') \<and>
      deref w' 2 = Some m' \<and> rolemask (mcred m') = FLUX_ROLE_USER) \<and>
   sock (unowned_module guest_request)
     = Some \<lparr>to_module = [], from_module = [guest_request]\<rparr> \<and>
   rolemask (cred (unowned_module guest_request)) AND FLUX_ROLE_OWNER = 0 \<and>
   module_recvmsg no_faults example_world (unowned_module guest_request)
     = Inl Assertion_failed"
proof -
  let ?p = "module_with_inbound guest_request"
  let ?q = "unowned_module guest_request"
  let ?z = "\<lparr>to_module = [], from_module = [guest_request]\<rparr>"
  have h0: "cred ?p = cred example_module"
    by (simp add: module_with_inbound_def)
  have h1: "sock ?p = Some ?z"
    by (simp add: module_with_inbound_def)
  have h2: "from_module ?z = guest_request # []"
    by simp
  have ne: "rolemask (mcred guest_request) = FLUX_ROLE_USER" "FLUX_ROLE_USER \<noteq> FLUX_ROLE_NONE"
    by (simp_all add: guest_request_def FLUX_ROLE_USER_def FLUX_ROLE_NONE_def)
  have q: "sock ?q = Some ?z" "rolemask (cred ?q) AND FLUX_ROLE_OWNER = 0"
    by (simp_all add: unowned_module_def module_with_inbound_def FLUX_ROLE_LOCAL_def
        FLUX_ROLE_OWNER_def)
  note inst = module_recvmsg_rolemask [OF module_create_echo h0 h1 h2 recvmsg_guest]
  from inst ne
  obtain m' where "deref (example_world\<lparr>msgs := msgs example_world @
               [Some (guest_request\<lparr>routes := [''uuid-of-module'']\<rparr>)]\<rparr>) 2 = Some m'"
    "rolemask (mcred m') = FLUX_ROLE_USER"
    by auto
  moreover from inst q
  have "module_recvmsg no_faults example_world ?q = Inl Assertion_failed"
    by blast
  ultimately show ?thesis
    using h0 h1 q recvmsg_guest module_create_echo by blast
qed

text \<open>The claim as the spec states it fails: the record has the credential that
  \<^verbatim>\<open>module_create\<close> sets, the module sends a request with the rolemask USER, and the
  message that \<^verbatim>\<open>module_recvmsg\<close> returns has no OWNER bit.\<close>

theorem module_recvmsg_owner_counterexample:
  "module_create example_system no_faults example_world ''B'' None ''./mod_echo.so'' 0 None
     = Inr (Some example_module, example_world) \<and>
   module_with_inbound guest_request
     = example_module\<lparr>sock := Some \<lparr>to_module = [], from_module = [guest_request]\<rparr>\<rparr> \<and>
   rolemask (cred example_module) = FLUX_ROLE_OWNER OR FLUX_ROLE_LOCAL \<and>
   module_recvmsg no_faults example_world (module_with_inbound guest_request)
     = Inr (Some 2,
            example_world\<lparr>msgs := msgs example_world @
               [Some (guest_request\<lparr>routes := [''uuid-of-module'']\<rparr>)]\<rparr>,
            example_module) \<and>
   rolemask (mcred (guest_request\<lparr>routes := [''uuid-of-module'']\<rparr>)) AND FLUX_ROLE_OWNER = 0"
  using recvmsg_guest module_create_echo
  by (simp add: module_with_inbound_def example_defs guest_request_def
      FLUX_ROLE_OWNER_def FLUX_ROLE_USER_def)

subsection \<open>The lifecycle status\<close>

lemma set_status_cases:
  "module_set_status f w p s =
     (if s = FLUX_MODSTATE_INIT \<or> status p = FLUX_MODSTATE_EXITED then Inl Assertion_failed
      else Inr (case status_cb p of None \<Rightarrow> w
                | Some cb \<Rightarrow> clobber f Status_callback (log_event (Status_cb cb (status p) s) w),
                p\<lparr>status := s\<rparr>))"
  by (simp add: module_set_status_def Let_def split: option.splits)

lemma set_status_seq_accepts:
  "set_status_seq f w p ss = Inr (w', p') \<Longrightarrow>
   FLUX_MODSTATE_INIT \<notin> set ss \<and> FLUX_MODSTATE_EXITED \<notin> set (butlast ss) \<and>
   (status p = FLUX_MODSTATE_EXITED \<longrightarrow> ss = []) \<and>
   status p' = (if ss = [] then status p else last ss)"
proof (induction ss arbitrary: w p)
  case Nil
  then show ?case by simp
next
  case (Cons s ss)
  from Cons.prems obtain w1 where
    ok: "s \<noteq> FLUX_MODSTATE_INIT" "status p \<noteq> FLUX_MODSTATE_EXITED"
    and rest: "set_status_seq f w1 (p\<lparr>status := s\<rparr>) ss = Inr (w', p')"
    by (auto simp: set_status_cases split: if_splits)
  from Cons.IH [OF rest] ok show ?case
    by auto
qed

text \<open>C4, as the code has it. \<^verbatim>\<open>module_set_status\<close> rejects by assertion a transition to
  INIT and any transition of a record that is EXITED; every other request is accepted
  and sets the status to the requested value, whatever the current one is. So in a
  sequence of accepted transitions INIT is never entered again and nothing follows
  EXITED, and the sequence ends in the status requested last.\<close>

theorem module_set_status_guards:
  "module_set_status f w p FLUX_MODSTATE_INIT = Inl Assertion_failed \<and>
   (status p = FLUX_MODSTATE_EXITED \<longrightarrow> module_set_status f w p s = Inl Assertion_failed) \<and>
   (s \<noteq> FLUX_MODSTATE_INIT \<and> status p \<noteq> FLUX_MODSTATE_EXITED \<longrightarrow>
      (\<exists>w1. module_set_status f w p s = Inr (w1, p\<lparr>status := s\<rparr>))) \<and>
   (set_status_seq f w p ss = Inr (w', p') \<longrightarrow>
      FLUX_MODSTATE_INIT \<notin> set ss \<and> FLUX_MODSTATE_EXITED \<notin> set (butlast ss) \<and>
      (status p = FLUX_MODSTATE_EXITED \<longrightarrow> ss = []) \<and>
      status p' = (if ss = [] then status p else last ss))"
  using set_status_seq_accepts [of f w p ss w' p']
  by (simp add: set_status_cases)

lemma status_run_eval:
  "set_status_seq no_faults example_world example_module
     [FLUX_MODSTATE_RUNNING, FLUX_MODSTATE_FINALIZING, FLUX_MODSTATE_RUNNING]
   = Inr (example_world, example_module\<lparr>status := FLUX_MODSTATE_RUNNING\<rparr>)"
  by (simp add: set_status_cases example_defs FLUX_MODSTATE_INIT_def FLUX_MODSTATE_RUNNING_def
      FLUX_MODSTATE_FINALIZING_def FLUX_MODSTATE_EXITED_def)

theorem module_set_status_guards_witness:
  "module_set_status no_faults example_world example_module FLUX_MODSTATE_INIT
     = Inl Assertion_failed \<and>
   status (example_module\<lparr>status := FLUX_MODSTATE_EXITED\<rparr>) = FLUX_MODSTATE_EXITED \<and>
   module_set_status no_faults example_world (example_module\<lparr>status := FLUX_MODSTATE_EXITED\<rparr>)
     FLUX_MODSTATE_RUNNING = Inl Assertion_failed \<and>
   FLUX_MODSTATE_RUNNING \<noteq> FLUX_MODSTATE_INIT \<and>
   status example_module \<noteq> FLUX_MODSTATE_EXITED \<and>
   (\<exists>w1. module_set_status no_faults example_world example_module FLUX_MODSTATE_RUNNING
      = Inr (w1, example_module\<lparr>status := FLUX_MODSTATE_RUNNING\<rparr>)) \<and>
   set_status_seq no_faults example_world example_module
     [FLUX_MODSTATE_RUNNING, FLUX_MODSTATE_FINALIZING, FLUX_MODSTATE_RUNNING]
   = Inr (example_world, example_module\<lparr>status := FLUX_MODSTATE_RUNNING\<rparr>) \<and>
   FLUX_MODSTATE_INIT \<notin> set [FLUX_MODSTATE_RUNNING, FLUX_MODSTATE_FINALIZING, FLUX_MODSTATE_RUNNING] \<and>
   FLUX_MODSTATE_EXITED \<notin> set [FLUX_MODSTATE_RUNNING, FLUX_MODSTATE_FINALIZING]"
proof -
  have a: "status (example_module\<lparr>status := FLUX_MODSTATE_EXITED\<rparr>) = FLUX_MODSTATE_EXITED"
    by simp
  have b: "FLUX_MODSTATE_RUNNING \<noteq> FLUX_MODSTATE_INIT"
    "status example_module \<noteq> FLUX_MODSTATE_EXITED"
    by (simp_all add: example_defs FLUX_MODSTATE_INIT_def FLUX_MODSTATE_RUNNING_def
        FLUX_MODSTATE_EXITED_def)
  from module_set_status_guards
    [of no_faults example_world "example_module\<lparr>status := FLUX_MODSTATE_EXITED\<rparr>"
      FLUX_MODSTATE_RUNNING]
  have c: "module_set_status no_faults example_world
      (example_module\<lparr>status := FLUX_MODSTATE_EXITED\<rparr>) FLUX_MODSTATE_RUNNING
      = Inl Assertion_failed"
    by simp
  from module_set_status_guards
    [of no_faults example_world example_module FLUX_MODSTATE_RUNNING
      "[FLUX_MODSTATE_RUNNING, FLUX_MODSTATE_FINALIZING, FLUX_MODSTATE_RUNNING]"
      example_world "example_module\<lparr>status := FLUX_MODSTATE_RUNNING\<rparr>"] b status_run_eval
  have d: "module_set_status no_faults example_world example_module FLUX_MODSTATE_INIT
      = Inl Assertion_failed"
    "\<exists>w1. module_set_status no_faults example_world example_module FLUX_MODSTATE_RUNNING
      = Inr (w1, example_module\<lparr>status := FLUX_MODSTATE_RUNNING\<rparr>)"
    "FLUX_MODSTATE_INIT \<notin> set [FLUX_MODSTATE_RUNNING, FLUX_MODSTATE_FINALIZING, FLUX_MODSTATE_RUNNING]"
    "FLUX_MODSTATE_EXITED \<notin> set [FLUX_MODSTATE_RUNNING, FLUX_MODSTATE_FINALIZING]"
    by auto
  from a b c d status_run_eval show ?thesis
    by blast
qed

text \<open>The claim as the spec states it fails: from INIT the transitions to RUNNING, to
  FINALIZING and back to RUNNING are all accepted.\<close>

theorem module_set_status_backward_counterexample:
  "status example_module = FLUX_MODSTATE_INIT \<and>
   set_status_seq no_faults example_world example_module
     [FLUX_MODSTATE_RUNNING, FLUX_MODSTATE_FINALIZING, FLUX_MODSTATE_RUNNING]
   = Inr (example_world, example_module\<lparr>status := FLUX_MODSTATE_RUNNING\<rparr>) \<and>
   FLUX_MODSTATE_RUNNING < FLUX_MODSTATE_FINALIZING"
  using status_run_eval
  by (simp add: example_defs FLUX_MODSTATE_INIT_def FLUX_MODSTATE_RUNNING_def
      FLUX_MODSTATE_FINALIZING_def)

subsection \<open>Destroying a record\<close>

lemma trace_clobber [simp]: "trace (clobber f c w) = trace w"
  by (simp add: clobber_def set_errno_def split: option.splits)

lemma trace_log_event [simp]: "trace (log_event ev w) = trace w @ [ev]"
  by (simp add: log_event_def)

lemma trace_set_errno [simp]: "trace (set_errno e w) = trace w"
  by (simp add: set_errno_def)

lemma trace_flux_msg_destroy [simp]: "trace (flux_msg_destroy w a) = trace w"
  by (simp add: flux_msg_destroy_def split: option.splits)

lemma errno_set_errno [simp]: "errno (set_errno e w) = e"
  by (simp add: set_errno_def)

lemma trace_destroy_rmmod:
  "trace (destroy_rmmod w q) = trace w @ map (\<lambda>a. Released (R_rmmod_msg a)) q"
  by (induction q arbitrary: w) simp_all

lemma trace_destroy_subs:
  "trace (destroy_subs w ss) = trace w @ map (\<lambda>s. Released (R_sub s)) ss"
  by (induction ss arbitrary: w) simp_all

lemma trace_destroy_release:
  "\<exists>rest. trace (destroy_release f w p) = trace w @ Released R_disconnect # rest \<and>
     (\<forall>ev \<in> set rest. is_teardown ev)"
  by (auto simp: destroy_release_def Let_def trace_destroy_rmmod trace_destroy_subs
      split: option.splits)

lemma destroy_join_result:
  assumes "t p \<noteq> 0" and "(case f Pthread_join of None \<Rightarrow> 0 | Some e \<Rightarrow> e) = 0"
  shows "\<exists>w1 p1. destroy_join f w p = Inr (w1, p1) \<and> status p1 = FLUX_MODSTATE_EXITED \<and>
     p1 = p\<lparr>status := FLUX_MODSTATE_EXITED\<rparr> \<and>
     trace w1 = trace w @ Thread_joined (t p) #
        (if status p = FLUX_MODSTATE_EXITED then []
         else (case status_cb p of None \<Rightarrow> []
               | Some cb \<Rightarrow> [Status_cb cb (status p) FLUX_MODSTATE_EXITED]))"
  using assms
  by (auto simp: destroy_join_def set_status_cases Let_def FLUX_MODSTATE_EXITED_def
      FLUX_MODSTATE_INIT_def split: option.splits)

text \<open>C6. When \<^verbatim>\<open>module_destroy\<close> is called on a record whose thread was started and the
  join succeeds, the thread is joined first; then, if the status is not EXITED, the
  status becomes EXITED and the registered status callback is called with the previous
  status; only then is the record taken apart, starting with the disconnect tracker,
  and from there on the trace holds teardown events only. If the status is EXITED
  already, nothing stands between the join and the teardown.\<close>

theorem module_destroy_forces_exited:
  "t p \<noteq> 0 \<Longrightarrow> (case f Pthread_join of None \<Rightarrow> 0 | Some e \<Rightarrow> e) = 0 \<Longrightarrow>
   (\<exists>w1 p1 rest.
      destroy_join f w p = Inr (w1, p1) \<and>
      status p1 = FLUX_MODSTATE_EXITED \<and>
      trace w1 = trace w @ Thread_joined (t p) #
        (if status p = FLUX_MODSTATE_EXITED then []
         else (case status_cb p of None \<Rightarrow> []
               | Some cb \<Rightarrow> [Status_cb cb (status p) FLUX_MODSTATE_EXITED])) \<and>
      module_destroy f w (Some p) = Inr (set_errno (errno w) (destroy_release f w1 p1)) \<and>
      trace (destroy_release f w1 p1) = trace w1 @ Released R_disconnect # rest \<and>
      (\<forall>ev \<in> set rest. is_teardown ev))"
proof -
  assume a: "t p \<noteq> 0" "(case f Pthread_join of None \<Rightarrow> 0 | Some e \<Rightarrow> e) = 0"
  from a destroy_join_result [of p f w] obtain w1 p1 where
    j: "destroy_join f w p = Inr (w1, p1)" "status p1 = FLUX_MODSTATE_EXITED"
      "trace w1 = trace w @ Thread_joined (t p) #
        (if status p = FLUX_MODSTATE_EXITED then []
         else (case status_cb p of None \<Rightarrow> []
               | Some cb \<Rightarrow> [Status_cb cb (status p) FLUX_MODSTATE_EXITED]))"
    by blast
  from trace_destroy_release [of f w1 p1] obtain rest where
    r: "trace (destroy_release f w1 p1) = trace w1 @ Released R_disconnect # rest"
      "\<forall>ev \<in> set rest. is_teardown ev"
    by blast
  have "module_destroy f w (Some p) = Inr (set_errno (errno w) (destroy_release f w1 p1))"
    using j(1) by (simp add: module_destroy_def)
  with j r show ?thesis by blast
qed

theorem module_destroy_forces_exited_witness:
  "t running_module \<noteq> 0 \<and>
   (case no_faults Pthread_join of None \<Rightarrow> 0 | Some e \<Rightarrow> e) = (0::int) \<and>
   status running_module = FLUX_MODSTATE_RUNNING \<and>
   (\<exists>w' rest. module_destroy no_faults example_world (Some running_module) = Inr w' \<and>
      trace w' = [Thread_joined 7, Status_cb 1 FLUX_MODSTATE_RUNNING FLUX_MODSTATE_EXITED,
                  Released R_disconnect] @ rest \<and>
      list_all is_teardown rest) \<and>
   (\<exists>w' rest. module_destroy no_faults example_world
        (Some (running_module\<lparr>status := FLUX_MODSTATE_EXITED\<rparr>)) = Inr w' \<and>
      trace w' = [Thread_joined 7, Released R_disconnect] @ rest \<and>
      list_all is_teardown rest)"
proof -
  have h1: "t running_module \<noteq> 0" "t (running_module\<lparr>status := FLUX_MODSTATE_EXITED\<rparr>) \<noteq> 0"
    by (simp_all add: running_module_def)
  have h2: "(case no_faults Pthread_join of None \<Rightarrow> 0 | Some e \<Rightarrow> e) = (0::int)"
    by (simp add: no_faults_def)
  have more: "status running_module = FLUX_MODSTATE_RUNNING"
    "FLUX_MODSTATE_RUNNING \<noteq> FLUX_MODSTATE_EXITED"
    "status_cb running_module = Some 1" "t running_module = 7"
    "trace example_world = []"
    by (simp_all add: running_module_def example_defs FLUX_MODSTATE_RUNNING_def
        FLUX_MODSTATE_EXITED_def)
  from module_destroy_forces_exited [of running_module no_faults example_world] h1 h2 more
  have a: "\<exists>w' rest. module_destroy no_faults example_world (Some running_module) = Inr w' \<and>
      trace w' = [Thread_joined 7, Status_cb 1 FLUX_MODSTATE_RUNNING FLUX_MODSTATE_EXITED,
                  Released R_disconnect] @ rest \<and>
      list_all is_teardown rest"
    by (auto simp: list_all_iff)
  from module_destroy_forces_exited
    [of "running_module\<lparr>status := FLUX_MODSTATE_EXITED\<rparr>" no_faults example_world] h1 h2 more
  have b: "\<exists>w' rest. module_destroy no_faults example_world
        (Some (running_module\<lparr>status := FLUX_MODSTATE_EXITED\<rparr>)) = Inr w' \<and>
      trace w' = [Thread_joined 7, Released R_disconnect] @ rest \<and>
      list_all is_teardown rest"
    by (auto simp: list_all_iff)
  from h1 h2 more a b show ?thesis
    by blast
qed

lemma destroy_join_stops:
  "(\<exists>x. destroy_join f w p = Inl x) =
     (t p \<noteq> 0 \<and> (case f Pthread_join of None \<Rightarrow> 0 | Some e \<Rightarrow> e) \<noteq> 0)"
  by (auto simp: destroy_join_def set_status_cases Let_def FLUX_MODSTATE_EXITED_def
      FLUX_MODSTATE_INIT_def split: option.splits)

text \<open>C10. \<^verbatim>\<open>module_destroy\<close> on the NULL record returns at once with nothing changed;
  whenever \<^verbatim>\<open>module_destroy\<close> returns, \<^verbatim>\<open>errno\<close> has the value it had on entry, whatever
  the library calls inside left in it; and it returns unless a thread was started and
  \<^verbatim>\<open>pthread_join\<close> fails, in which case the process exits.\<close>

theorem module_destroy_keeps_errno:
  "module_destroy f w None = Inr w \<and>
   (module_destroy f w p = Inr w' \<longrightarrow> errno w' = errno w) \<and>
   ((\<exists>w1. module_destroy f w p = Inr w1) =
    (\<not> (\<exists>m. p = Some m \<and> t m \<noteq> 0 \<and> (case f Pthread_join of None \<Rightarrow> 0 | Some e \<Rightarrow> e) \<noteq> 0)))"
proof (intro conjI impI)
  show "module_destroy f w None = Inr w"
    by (simp add: module_destroy_def)
  show "errno w' = errno w" if "module_destroy f w p = Inr w'"
    using that by (auto simp: module_destroy_def split: option.splits sum.splits)
  show "(\<exists>w1. module_destroy f w p = Inr w1) =
    (\<not> (\<exists>m. p = Some m \<and> t m \<noteq> 0 \<and> (case f Pthread_join of None \<Rightarrow> 0 | Some e \<Rightarrow> e) \<noteq> 0))"
  proof (cases p)
    case None
    then show ?thesis by (simp add: module_destroy_def)
  next
    case (Some m)
    show ?thesis
    proof (cases "destroy_join f w m")
      case (Inl x)
      with Some destroy_join_stops [of f w m] show ?thesis
        by (auto simp: module_destroy_def)
    next
      case (Inr y)
      with Some destroy_join_stops [of f w m] show ?thesis
        by (auto simp: module_destroy_def split: prod.splits)
    qed
  qed
qed

theorem module_destroy_keeps_errno_witness:
  "module_destroy clobbering_faults (example_world\<lparr>errno := 5\<rparr>) None
     = Inr (example_world\<lparr>errno := 5\<rparr>) \<and>
   errno (destroy_release clobbering_faults (example_world\<lparr>errno := 5\<rparr>) running_module) = EINVAL \<and>
   (\<exists>w'. module_destroy clobbering_faults (example_world\<lparr>errno := 5\<rparr>) (Some running_module)
       = Inr w' \<and> errno w' = 5)"
proof -
  let ?w = "example_world\<lparr>errno := 5\<rparr>"
  have j: "(case clobbering_faults Pthread_join of None \<Rightarrow> 0 | Some e \<Rightarrow> e) = (0::int)"
    by (simp add: clobbering_faults_def)
  have c: "errno (destroy_release clobbering_faults ?w running_module) = EINVAL"
    by (simp add: destroy_release_def Let_def clobber_def clobbering_faults_def
        running_module_def example_defs log_event_def set_errno_def flux_msg_destroy_def)
  note inst = module_destroy_keeps_errno [of clobbering_faults ?w "Some running_module"]
  from inst j obtain w1 where
    r: "module_destroy clobbering_faults ?w (Some running_module) = Inr w1"
    by auto
  from module_destroy_keeps_errno [of clobbering_faults ?w "Some running_module" w1] r
  have "errno w1 = 5" by simp
  with r c inst show ?thesis
    by blast
qed

subsection \<open>The pending remove-module requests\<close>

lemma push_rmmod_one:
  assumes "rmmod p = Some q" and "f Msg_copy = None" and "f Zlist_push_rmmod = None"
    and "deref w a = Some m"
  shows "module_push_rmmod f w p a =
     Inr (0, w\<lparr>msgs := msgs w @ [Some (m\<lparr>payload := []\<rparr>)]\<rparr>,
          p\<lparr>rmmod := Some (length (msgs w) # q)\<rparr>)"
  using assms by (simp add: module_push_rmmod_def flux_msg_copy_def zlist_push_def)

lemma push_rmmod_seq_result:
  assumes "rmmod p = Some q" and "f Msg_copy = None" and "f Zlist_push_rmmod = None"
    and "\<forall>a \<in> set as. deref w a \<noteq> None"
  shows "push_rmmod_seq f w p as =
     Inr (replicate (length as) 0,
          w\<lparr>msgs := msgs w @ map (\<lambda>a. map_option (\<lambda>m. m\<lparr>payload := []\<rparr>) (deref w a)) as\<rparr>,
          p\<lparr>rmmod := Some (rev [length (msgs w) ..< length (msgs w) + length as] @ q)\<rparr>)"
  using assms
proof (induction as arbitrary: w p q)
  case Nil
  then show ?case by simp
next
  case (Cons a as)
  from Cons.prems(4) obtain m where m: "deref w a = Some m"
    by auto
  let ?w1 = "w\<lparr>msgs := msgs w @ [Some (m\<lparr>payload := []\<rparr>)]\<rparr>"
  let ?p1 = "p\<lparr>rmmod := Some (length (msgs w) # q)\<rparr>"
  have one: "module_push_rmmod f w p a = Inr (0, ?w1, ?p1)"
    using push_rmmod_one [OF Cons.prems(1-3) m] .
  have same: "deref ?w1 b = deref w b" if "b \<in> set as" for b
  proof -
    from that Cons.prems(4) obtain mb where "deref w b = Some mb" by auto
    then have "b < length (msgs w)" by (rule deref_lt)
    then show ?thesis by simp
  qed
  then have valid: "\<forall>b \<in> set as. deref ?w1 b \<noteq> None"
    using Cons.prems(4) by simp
  have maps: "map (\<lambda>a. map_option (\<lambda>m. m\<lparr>payload := []\<rparr>) (deref ?w1 a)) as
      = map (\<lambda>a. map_option (\<lambda>m. m\<lparr>payload := []\<rparr>) (deref w a)) as"
    using same by (simp cong: map_cong)
  have r1: "rmmod ?p1 = Some (length (msgs w) # q)"
    by simp
  have "[length (msgs w) ..< length (msgs w) + length (a # as)]
      = length (msgs w) # [Suc (length (msgs w)) ..< length (msgs w) + length (a # as)]"
    by (rule upt_conv_Cons) simp
  then have upt: "[length (msgs w) ..< length (msgs w) + length (a # as)]
      = length (msgs w) # [Suc (length (msgs w)) ..< Suc (length (msgs w)) + length as]"
    by simp
  from Cons.IH [OF r1 Cons.prems(2,3) valid] one m maps upt show ?case
    by simp
qed

lemma pop_rmmod_seq_result:
  "rmmod p = Some (xs @ q) \<Longrightarrow>
   pop_rmmod_seq p (length xs) = Inr (map Some xs, p\<lparr>rmmod := Some q\<rparr>)"
proof (induction xs arbitrary: p)
  case Nil
  then have "p\<lparr>rmmod := Some q\<rparr> = p" by (cases p) simp
  then show ?case by simp
next
  case (Cons x xs)
  have "module_pop_rmmod p = Inr (Some x, p\<lparr>rmmod := Some (xs @ q)\<rparr>)"
    using Cons.prems by (simp add: module_pop_rmmod_def zlist_pop_def)
  moreover have "pop_rmmod_seq (p\<lparr>rmmod := Some (xs @ q)\<rparr>) (length xs)
      = Inr (map Some xs, p\<lparr>rmmod := Some q\<rparr>)"
    using Cons.IH [of "p\<lparr>rmmod := Some (xs @ q)\<rparr>"] by simp
  ultimately show ?case by simp
qed

lemma pop_rmmod_empty:
  "rmmod p = Some [] \<Longrightarrow> module_pop_rmmod p = Inr (None, p)"
proof -
  assume e: "rmmod p = Some []"
  then have "p\<lparr>rmmod := Some []\<rparr> = p" by (cases p) simp
  with e show ?thesis by (simp add: module_pop_rmmod_def zlist_pop_def)
qed

text \<open>C7, as the code has it. The pending remove-module requests are a stack. When
  messages m1, ..., mk are pushed with \<^verbatim>\<open>module_push_rmmod\<close> (no library call failing, no
  pop in between), every push returns 0 and stores a copy of its message without the
  payload; k calls of \<^verbatim>\<open>module_pop_rmmod\<close> then return the copies in the reverse order,
  mk first and m1 last, and leave the list as it was before the pushes.
  \<^verbatim>\<open>module_pop_rmmod\<close> on an empty list returns nothing.\<close>

theorem rmmod_queue_lifo:
  "rmmod p = Some q \<Longrightarrow> f Msg_copy = None \<Longrightarrow> f Zlist_push_rmmod = None \<Longrightarrow>
   \<forall>a \<in> set as. deref w a \<noteq> None \<Longrightarrow>
   (\<exists>w' p' cs. push_rmmod_seq f w p as = Inr (replicate (length as) 0, w', p') \<and>
      map (deref w') cs = map (\<lambda>a. map_option (\<lambda>m. m\<lparr>payload := []\<rparr>) (deref w a)) as \<and>
      pop_rmmod_seq p' (length as) = Inr (map Some (rev cs), p)) \<and>
   (q = [] \<longrightarrow> module_pop_rmmod p = Inr (None, p))"
proof (intro conjI impI)
  assume a: "rmmod p = Some q" "f Msg_copy = None" "f Zlist_push_rmmod = None"
    "\<forall>a \<in> set as. deref w a \<noteq> None"
  let ?n = "length (msgs w)"
  let ?cs = "[?n ..< ?n + length as]"
  let ?copies = "map (\<lambda>a. map_option (\<lambda>m. m\<lparr>payload := []\<rparr>) (deref w a)) as"
  let ?w' = "w\<lparr>msgs := msgs w @ ?copies\<rparr>"
  let ?p' = "p\<lparr>rmmod := Some (rev ?cs @ q)\<rparr>"
  have push: "push_rmmod_seq f w p as = Inr (replicate (length as) 0, ?w', ?p')"
    using push_rmmod_seq_result [OF a] .
  have "deref ?w' (?n + i) = ?copies ! i" if "i < length as" for i
    using that by (simp add: deref_def nth_append)
  then have content: "map (deref ?w') ?cs = ?copies"
    by (intro nth_equalityI) (simp_all add: add.commute)
  have "pop_rmmod_seq ?p' (length (rev ?cs)) = Inr (map Some (rev ?cs), ?p'\<lparr>rmmod := Some q\<rparr>)"
    by (rule pop_rmmod_seq_result) simp
  moreover have "?p'\<lparr>rmmod := Some q\<rparr> = p"
    using a(1) by (cases p) simp
  ultimately have pop: "pop_rmmod_seq ?p' (length as) = Inr (map Some (rev ?cs), p)"
    by simp
  from push content pop
  show "\<exists>w' p' cs. push_rmmod_seq f w p as = Inr (replicate (length as) 0, w', p') \<and>
      map (deref w') cs = ?copies \<and>
      pop_rmmod_seq p' (length as) = Inr (map Some (rev cs), p)"
    by blast
  show "module_pop_rmmod p = Inr (None, p)" if "q = []"
    using that a(1) pop_rmmod_empty by simp
qed

theorem rmmod_queue_lifo_witness:
  "rmmod example_module = Some [] \<and> no_faults Msg_copy = None \<and>
   no_faults Zlist_push_rmmod = None \<and>
   deref example_world 0 \<noteq> None \<and> deref example_world 1 \<noteq> None \<and>
   (\<exists>w' p' cs. push_rmmod_seq no_faults example_world example_module [0, 1] = Inr ([0, 0], w', p') \<and>
      map (deref w') cs
        = [Some (example_request\<lparr>payload := []\<rparr>), Some (example_response\<lparr>payload := []\<rparr>)] \<and>
      pop_rmmod_seq p' 2 = Inr (map Some (rev cs), example_module)) \<and>
   module_pop_rmmod example_module = Inr (None, example_module)"
proof -
  have h1: "rmmod example_module = Some []"
    and h2: "no_faults Msg_copy = None" and h3: "no_faults Zlist_push_rmmod = None"
    by (simp_all add: example_defs)
  have d: "deref example_world 0 = Some example_request"
    "deref example_world 1 = Some example_response"
    by (simp_all add: example_defs deref_def)
  then have h4: "\<forall>a \<in> set [0, 1]. deref example_world a \<noteq> None"
    by simp
  from rmmod_queue_lifo [OF h1 h2 h3 h4] d
  have "(\<exists>w' p' cs. push_rmmod_seq no_faults example_world example_module [0, 1]
        = Inr ([0, 0], w', p') \<and>
      map (deref w') cs
        = [Some (example_request\<lparr>payload := []\<rparr>), Some (example_response\<lparr>payload := []\<rparr>)] \<and>
      pop_rmmod_seq p' 2 = Inr (map Some (rev cs), example_module)) \<and>
   module_pop_rmmod example_module = Inr (None, example_module)"
    by (simp add: numeral_2_eq_2)
  with h1 h2 h3 d show ?thesis
    by simp
qed

lemma push_then_pop_eval:
  "push_then_pop no_faults example_world example_module [0, 1] 3
     = Inr [Some (example_response\<lparr>payload := []\<rparr>), Some (example_request\<lparr>payload := []\<rparr>), None]"
  by (simp add: push_then_pop_def module_push_rmmod_def module_pop_rmmod_def flux_msg_copy_def
      zlist_push_def zlist_pop_def example_defs deref_def numeral_3_eq_3)

text \<open>The claim as the spec states it fails: the request is pushed first and the
  response second, and the first pop returns the copy of the response.\<close>

theorem rmmod_queue_fifo_counterexample:
  "deref example_world 0 = Some example_request \<and>
   deref example_world 1 = Some example_response \<and>
   push_then_pop no_faults example_world example_module [0, 1] 3
     = Inr [Some (example_response\<lparr>payload := []\<rparr>), Some (example_request\<lparr>payload := []\<rparr>), None] \<and>
   example_response\<lparr>payload := []\<rparr> \<noteq> example_request\<lparr>payload := []\<rparr>"
  using push_then_pop_eval
  by (simp add: example_defs deref_def)

subsection \<open>The name derived from the path\<close>

lemma strstr_Some:
  "strstr s n = Some i \<Longrightarrow> take (length n) (drop i s) = n \<and> i + length n \<le> length s"
proof (induction s arbitrary: i)
  case Nil
  then show ?case by (simp split: if_splits)
next
  case (Cons c cs)
  show ?case
  proof (cases "take (length n) (c # cs) = n")
    case True
    have "length (take (length n) (c # cs)) = length n"
      using arg_cong [OF True, of length] .
    then have "length n \<le> length (c # cs)"
      by (simp add: min_def split: if_splits)
    with True Cons.prems show ?thesis by simp
  next
    case False
    with Cons.prems obtain j where "strstr cs n = Some j" "i = Suc j"
      by auto
    with Cons.IH [of j] show ?thesis by simp
  qed
qed

lemma strstr_None:
  "strstr s n = None \<Longrightarrow> i \<le> length s \<Longrightarrow> take (length n) (drop i s) \<noteq> n"
proof (induction s arbitrary: i)
  case Nil
  then show ?case by (auto split: if_splits)
next
  case (Cons c cs)
  from Cons.prems(1) have a: "take (length n) (c # cs) \<noteq> n" and b: "strstr cs n = None"
    by (auto split: if_splits)
  show ?case
  proof (cases i)
    case 0
    with a show ?thesis by simp
  next
    case (Suc j)
    with Cons.prems(2) Cons.IH [OF b, of j] show ?thesis by simp
  qed
qed

lemma cut_is_strip:
  assumes "strstr b ''.so'' = None \<or> strstr b ''.so'' = Some (length b - 3)"
  shows "(case strstr b ''.so'' of None \<Rightarrow> b | Some cp \<Rightarrow> take cp b) = strip_so_suffix b"
  using assms
proof
  assume n: "strstr b ''.so'' = None"
  have "drop (length b - 3) b \<noteq> ''.so''"
  proof
    assume e: "drop (length b - 3) b = ''.so''"
    then have "take (length ''.so'') (drop (length b - 3) b) = ''.so''" by simp
    with strstr_None [OF n, of "length b - 3"] show False by simp
  qed
  with n show ?thesis by (simp add: strip_so_suffix_def)
next
  assume s: "strstr b ''.so'' = Some (length b - 3)"
  from strstr_Some [OF s] have t: "take 3 (drop (length b - 3) b) = ''.so''"
    and l: "3 \<le> length b" by simp_all
  from l have "length (drop (length b - 3) b) = 3" by simp
  then have "take 3 (drop (length b - 3) b) = drop (length b - 3) b" by simp
  with t l s show ?thesis by (simp add: strip_so_suffix_def)
qed

text \<open>C8, as the code has it. When \<^verbatim>\<open>module_create\<close> is given no name and succeeds, the
  name of the record is the basename of the path cut at the first occurrence of
  \<^verbatim>\<open>.so\<close> (the whole basename when there is none). When \<^verbatim>\<open>.so\<close> does not occur in the
  basename before its end, that is the basename with the shared-object suffix
  stripped.\<close>

theorem module_create_derived_name:
  "module_create sys f w pu None pth rnk args = Inr (Some p, w') \<Longrightarrow>
   name p = Some (case strstr (basename pth) ''.so'' of
                    None \<Rightarrow> basename pth
                  | Some cp \<Rightarrow> take cp (basename pth)) \<and>
   (strstr (basename pth) ''.so'' = None \<or>
    strstr (basename pth) ''.so'' = Some (length (basename pth) - 3) \<longrightarrow>
      name p = Some (strip_so_suffix (basename pth)))"
proof -
  assume c: "module_create sys f w pu None pth rnk args = Inr (Some p, w')"
  from module_create_result [OF c] obtain n w2 where
    n: "create_name f w None pth = (Some n, w2)" "name p = Some n"
    by blast
  from n(1) have "n = (case strstr (basename pth) ''.so'' of
                    None \<Rightarrow> basename pth
                  | Some cp \<Rightarrow> take cp (basename pth))"
    by (auto simp: create_name_def module_name_from_path_def Let_def split: option.splits)
  with n(2) cut_is_strip [of "basename pth"] show ?thesis
    by auto
qed

lemma module_create_sock:
  "module_create example_system no_faults example_world ''B'' None ''./mod.sock.so'' 0 None
     = Inr (Some (example_module\<lparr>name := Some ''mod'', path := Some ''./mod.sock.so''\<rparr>),
            example_world)"
  by (simp add: module_create_def create_fields_def create_channel_def create_name_def
      module_name_from_path_def basename_def Let_def example_system_def example_objects_def
      example_defs clobber_def)

theorem module_create_derived_name_witness:
  "module_create example_system no_faults example_world ''B'' None ''./mod_echo.so'' 0 None
     = Inr (Some example_module, example_world) \<and>
   name example_module = Some ''mod_echo'' \<and>
   status example_module = FLUX_MODSTATE_INIT \<and>
   strstr (basename ''./mod_echo.so'') ''.so'' = Some (length (basename ''./mod_echo.so'') - 3) \<and>
   strip_so_suffix (basename ''./mod_echo.so'') = ''mod_echo''"
proof -
  have s: "strstr (basename ''./mod_echo.so'') ''.so''
      = Some (length (basename ''./mod_echo.so'') - 3)"
    by (simp add: basename_def)
  from module_create_derived_name [OF module_create_echo] s
  have "name example_module = Some (strip_so_suffix (basename ''./mod_echo.so''))"
    by blast
  moreover have "name example_module = Some ''mod_echo''"
    "status example_module = FLUX_MODSTATE_INIT"
    by (simp_all add: example_defs FLUX_MODSTATE_INIT_def)
  ultimately show ?thesis
    using module_create_echo s by simp
qed

text \<open>The claim as the spec states it fails: for the path \<^verbatim>\<open>./mod.sock.so\<close> the name is
  \<^verbatim>\<open>mod\<close>, and the basename without its suffix is \<^verbatim>\<open>mod.sock\<close>.\<close>

theorem module_create_suffix_counterexample:
  "module_create example_system no_faults example_world ''B'' None ''./mod.sock.so'' 0 None
     = Inr (Some (example_module\<lparr>name := Some ''mod'', path := Some ''./mod.sock.so''\<rparr>),
            example_world) \<and>
   basename ''./mod.sock.so'' = ''mod.sock.so'' \<and>
   strip_so_suffix (basename ''./mod.sock.so'') = ''mod.sock'' \<and>
   name (example_module\<lparr>name := Some ''mod'', path := Some ''./mod.sock.so''\<rparr>)
     \<noteq> Some (strip_so_suffix (basename ''./mod.sock.so''))"
  using module_create_sock
  by (simp add: basename_def strip_so_suffix_def)

subsection \<open>NULL arguments\<close>

text \<open>C9, as the code has it. \<^verbatim>\<open>module_sendmsg\<close> with a NULL message returns 0 and changes
  nothing, \<^verbatim>\<open>errno\<close> included; \<^verbatim>\<open>module_get_name\<close>, \<^verbatim>\<open>module_get_path\<close> and
  \<^verbatim>\<open>module_get_uuid\<close> with a NULL record return the string \<^verbatim>\<open>unknown\<close>, and
  \<^verbatim>\<open>module_get_status\<close> returns 0, the code of INIT.\<close>

theorem null_arguments:
  "module_sendmsg f w p None = (0, w, p) \<and>
   module_get_name None = ''unknown'' \<and> module_get_path None = ''unknown'' \<and>
   module_get_uuid None = ''unknown'' \<and> module_get_status None = FLUX_MODSTATE_INIT"
  by (simp add: module_sendmsg_def module_get_name_def module_get_path_def module_get_uuid_def
      module_get_status_def FLUX_MODSTATE_INIT_def)

theorem null_arguments_witness:
  "module_sendmsg no_faults example_world example_module None = (0, example_world, example_module) \<and>
   errno example_world = 0 \<and>
   module_get_name None = ''unknown'' \<and> module_get_path None = ''unknown'' \<and>
   module_get_uuid None = ''unknown'' \<and> module_get_status None = FLUX_MODSTATE_INIT"
  using null_arguments [of no_faults example_world example_module]
  by (simp add: example_defs)

text \<open>The claim as the spec states it fails: sending the NULL message succeeds, and the
  getters have no error to report.\<close>

theorem null_arguments_counterexample:
  "fst (module_sendmsg no_faults example_world example_module None) = 0 \<and>
   errno (fst (snd (module_sendmsg no_faults example_world example_module None))) = 0 \<and>
   EINVAL \<noteq> 0 \<and>
   module_get_name None = ''unknown'' \<and> module_get_path None = ''unknown'' \<and>
   module_get_uuid None = ''unknown'' \<and> module_get_status None = 0"
  by (simp add: module_sendmsg_def module_get_name_def module_get_path_def module_get_uuid_def
      module_get_status_def example_defs EINVAL_def)

end
